theory Spec2Isabelle
  imports Complex_Main
begin

section \<open>Python strings\<close>

text \<open>
  A Python \<^verbatim>\<open>str\<close> is a sequence of Unicode code points, and \<^verbatim>\<open>str.strip\<close>, \<^verbatim>\<open>\s\<close> and
  \<^verbatim>\<open>\d\<close> classify code points, so a string is modelled as the list of its code points (the
  values of \<^verbatim>\<open>ord\<close>). The Arabic section markers of \<^verbatim>\<open>ai_service.py\<close> are written as the
  code points of their letters.
\<close>

type_synonym pystr = "int list"

definition asc :: "string \<Rightarrow> pystr" where
  "asc s = map of_char s"

text \<open>
  \<^verbatim>\<open>str.isspace\<close> of one character; \<^verbatim>\<open>str.strip()\<close> and the pattern \<^verbatim>\<open>\s\<close> use the same
  table (tab to carriage return, the four separators 28 to 31, space, NEL, no-break space,
  Ogham space, the en quad to the hair space, the line and paragraph separators, the narrow
  no-break space, the medium mathematical space and the ideographic space).
\<close>

definition isspace :: "int \<Rightarrow> bool" where
  "isspace c \<longleftrightarrow>
     (9 \<le> c \<and> c \<le> 13) \<or> (28 \<le> c \<and> c \<le> 32) \<or> c = 133 \<or> c = 160 \<or> c = 5760 \<or>
     (8192 \<le> c \<and> c \<le> 8202) \<or> c = 8232 \<or> c = 8233 \<or> c = 8239 \<or> c = 8287 \<or> c = 12288"

text \<open>
  The pattern \<^verbatim>\<open>\d\<close> on a \<^verbatim>\<open>str\<close> matches every Unicode decimal digit (category Nd), not
  only \<^verbatim>\<open>0-9\<close>. The ranges are those of Unicode 14 (CPython 3.11).
\<close>

definition decimal_ranges :: "(int \<times> int) list" where
  "decimal_ranges =
    [(48, 57), (1632, 1641), (1776, 1785), (1984, 1993), (2406, 2415), (2534, 2543),
     (2662, 2671), (2790, 2799), (2918, 2927), (3046, 3055), (3174, 3183), (3302, 3311),
     (3430, 3439), (3558, 3567), (3664, 3673), (3792, 3801), (3872, 3881), (4160, 4169),
     (4240, 4249), (6112, 6121), (6160, 6169), (6470, 6479), (6608, 6617), (6784, 6793),
     (6800, 6809), (6992, 7001), (7088, 7097), (7232, 7241), (7248, 7257), (42528, 42537),
     (43216, 43225), (43264, 43273), (43472, 43481), (43504, 43513), (43600, 43609),
     (44016, 44025), (65296, 65305), (66720, 66729), (68912, 68921), (69734, 69743),
     (69872, 69881), (69942, 69951), (70096, 70105), (70384, 70393), (70736, 70745),
     (70864, 70873), (71248, 71257), (71360, 71369), (71472, 71481), (71904, 71913),
     (72016, 72025), (72784, 72793), (73040, 73049), (73120, 73129), (92768, 92777),
     (92864, 92873), (93008, 93017), (120782, 120831), (123200, 123209), (123632, 123641),
     (125264, 125273), (130032, 130041)]"

definition isdecimal :: "int \<Rightarrow> bool" where
  "isdecimal c = list_ex (\<lambda>(lo, hi). lo \<le> c \<and> c \<le> hi) decimal_ranges"

definition strip :: "pystr \<Rightarrow> pystr" where
  "strip s = rev (dropWhile isspace (rev (dropWhile isspace s)))"

definition startswith :: "pystr \<Rightarrow> pystr \<Rightarrow> bool" where
  "startswith m s \<longleftrightarrow> take (length m) s = m"

text \<open>\<^verbatim>\<open>m in s\<close>: the string \<open>m\<close> occurs somewhere in \<open>s\<close>.\<close>

fun contains :: "pystr \<Rightarrow> pystr \<Rightarrow> bool" where
  "contains m [] = startswith m []"
| "contains m (c # s) = (startswith m (c # s) \<or> contains m s)"

text \<open>\<^verbatim>\<open>s.split("\n")\<close>.\<close>

fun split_nl :: "pystr \<Rightarrow> pystr list" where
  "split_nl [] = [[]]"
| "split_nl (c # s) =
     (if c = 10 then [] # split_nl s
      else (case split_nl s of [] \<Rightarrow> [[c]] | l # ls \<Rightarrow> (c # l) # ls))"

text \<open>\<^verbatim>\<open>s.split("\n\n")\<close>: cut at each blank-line separator, left to right, without overlap.\<close>

fun split_blank :: "pystr \<Rightarrow> pystr list" where
  "split_blank (a # b # s) =
     (if a = 10 \<and> b = 10 then [] # split_blank s
      else (case split_blank (b # s) of [] \<Rightarrow> [[a]] | l # ls \<Rightarrow> (a # l) # ls))"
| "split_blank s = [s]"

text \<open>\<^verbatim>\<open>sep.join(xs)\<close>.\<close>

fun join :: "pystr \<Rightarrow> pystr list \<Rightarrow> pystr" where
  "join sep [] = []"
| "join sep [x] = x"
| "join sep (x # y # xs) = x @ sep @ join sep (y # xs)"

text \<open>
  \<^verbatim>\<open>s.replace(old, new)\<close> for a non-empty \<open>old\<close>: every occurrence, left to right, without
  overlap. (For an empty \<open>old\<close> Python inserts \<open>new\<close> around every character; the code never
  does that, and the model then leaves the string as it is.)
\<close>

function replace :: "pystr \<Rightarrow> pystr \<Rightarrow> pystr \<Rightarrow> pystr" where
  "replace old new [] = []"
| "replace old new (c # s) =
     (if old \<noteq> [] \<and> startswith old (c # s)
      then new @ replace old new (drop (length old) (c # s))
      else c # replace old new s)"
  by pat_completeness auto
termination
  by (relation "measure (\<lambda>(old, new, s). length s)") auto

section \<open>The patterns of the response parser\<close>

text \<open>
  The markers \<^verbatim>\<open>"paragraph:"\<close>, \<^verbatim>\<open>"choices:"\<close>, \<^verbatim>\<open>"title:"\<close> and \<^verbatim>\<open>"new title:"\<close> of the
  source, in Arabic, each ending with a colon (58).
\<close>

definition paragraph_marker :: pystr where
  "paragraph_marker = [1575, 1604, 1601, 1602, 1585, 1577, 58]"

definition choices_marker :: pystr where
  "choices_marker = [1575, 1604, 1582, 1610, 1575, 1585, 1575, 1578, 58]"

definition title_marker :: pystr where
  "title_marker = [1575, 1604, 1593, 1606, 1608, 1575, 1606, 58]"

definition new_title_marker :: pystr where
  "new_title_marker =
     [1575, 1604, 1593, 1606, 1608, 1575, 1606, 32, 1575, 1604, 1580, 1583, 1610, 1583, 58]"

text \<open>
  \<^verbatim>\<open>re.search\<close>: the pattern is tried at every position from the left, and the first position
  where it matches wins. The argument \<open>mt\<close> is the pattern tried at the start of a suffix of
  the text. None of the patterns looks behind, and \<^verbatim>\<open>$\<close> and the lookahead only read the
  suffix, so a suffix is all a pattern sees.
\<close>

fun re_search :: "(pystr \<Rightarrow> 'a option) \<Rightarrow> pystr \<Rightarrow> 'a option" where
  "re_search mt [] = mt []"
| "re_search mt (c # s) = (case mt (c # s) of Some r \<Rightarrow> Some r | None \<Rightarrow> re_search mt s)"

text \<open>
  \<^verbatim>\<open>$\<close> without \<^verbatim>\<open>re.MULTILINE\<close>: at the end of the text, or before a newline that is the
  last character.
\<close>

definition at_end :: "pystr \<Rightarrow> bool" where
  "at_end s \<longleftrightarrow> s = [] \<or> s = [10]"

text \<open>
  The lazy group \<^verbatim>\<open>(.*?)\<close> followed by the rest of a pattern: the shortest run of characters
  that \<^verbatim>\<open>.\<close> matches (\<open>dot\<close>) after which the rest (\<open>stop\<close>) matches. The result is the group
  and the text from where the group ends.
\<close>

fun lazy_until :: "(int \<Rightarrow> bool) \<Rightarrow> (pystr \<Rightarrow> bool) \<Rightarrow> pystr \<Rightarrow> (pystr \<times> pystr) option" where
  "lazy_until dot stop [] = (if stop [] then Some ([], []) else None)"
| "lazy_until dot stop (c # s) =
     (if stop (c # s) then Some ([], c # s)
      else if dot c then map_option (\<lambda>(g, r). (c # g, r)) (lazy_until dot stop s)
      else None)"

text \<open>With \<^verbatim>\<open>re.DOTALL\<close> the dot matches every character.\<close>

definition dotall :: "int \<Rightarrow> bool" where
  "dotall c = True"

text \<open>Without it, every character but the newline.\<close>

definition dot_no_newline :: "int \<Rightarrow> bool" where
  "dot_no_newline c \<longleftrightarrow> c \<noteq> 10"

text \<open>
  The paragraph pattern at one position: the marker, then the lazy group up to the choices
  marker, the title marker or \<^verbatim>\<open>$\<close>. The value is \<^verbatim>\<open>group(1)\<close>.
\<close>

definition paragraph_re :: "pystr \<Rightarrow> pystr option" where
  "paragraph_re t =
     (if startswith paragraph_marker t
      then map_option fst
             (lazy_until dotall
                (\<lambda>u. startswith choices_marker u \<or> startswith title_marker u \<or> at_end u)
                (drop (length paragraph_marker) t))
      else None)"

text \<open>
  The choices pattern and the title pattern at one position: a marker, then the lazy group up
  to \<^verbatim>\<open>$\<close>. The value is \<^verbatim>\<open>group(1)\<close>.
\<close>

definition to_end_re :: "pystr \<Rightarrow> pystr \<Rightarrow> pystr option" where
  "to_end_re marker t =
     (if startswith marker t
      then map_option fst (lazy_until dotall at_end (drop (length marker) t))
      else None)"

text \<open>
  \<^verbatim>\<open>\d+\.\<close> at one position. The greedy \<^verbatim>\<open>\d+\<close> takes the whole run of digits; a shorter run
  is followed by a digit, never by the full stop (46), so backtracking into it cannot help.
\<close>

definition numbered_ahead :: "pystr \<Rightarrow> bool" where
  "numbered_ahead u \<longleftrightarrow> takeWhile isdecimal u \<noteq> [] \<and> startswith [46] (dropWhile isdecimal u)"

text \<open>
  The numbered-choice pattern at one position: the number and its full stop, all the
  whitespace that follows (the greedy \<^verbatim>\<open>\s*\<close> is never backtracked into, since the rest of
  the pattern always matches at the latest at the end of the text), then the lazy group up to
  the next number or \<^verbatim>\<open>$\<close>, which the lookahead does not consume. The value is
  \<^verbatim>\<open>group(1)\<close> and the text after the match.
\<close>

definition numbered_re :: "pystr \<Rightarrow> (pystr \<times> pystr) option" where
  "numbered_re t =
     (if numbered_ahead t
      then lazy_until dotall (\<lambda>u. numbered_ahead u \<or> at_end u)
             (dropWhile isspace (drop 1 (dropWhile isdecimal t)))
      else None)"

text \<open>
  \<^verbatim>\<open>re.sub(r"^\d+\.\s*", "", line)\<close>: without \<^verbatim>\<open>re.MULTILINE\<close> the anchor only matches at the
  start of the line, so at most one numbering is removed.
\<close>

definition sub_numbering :: "pystr \<Rightarrow> pystr" where
  "sub_numbering line =
     (if numbered_ahead line then dropWhile isspace (drop 1 (dropWhile isdecimal line))
      else line)"

text \<open>
  \<^verbatim>\<open>re.findall\<close> with the numbered-choice pattern: the groups of all matches, left to right.
  After a match the search goes on where the match ended; where the pattern does not match,
  at the next character. A match is never empty (it holds a digit and a full stop).
\<close>

function findall_numbered :: "pystr \<Rightarrow> pystr list" where
  "findall_numbered s =
     (case numbered_re s of
        Some (g, r) \<Rightarrow> g # findall_numbered r
      | None \<Rightarrow> (case s of [] \<Rightarrow> [] | c # s' \<Rightarrow> findall_numbered s'))"
  by pat_completeness auto
termination
proof (relation "measure length")
  show "wf (measure length)"
    by simp
next
  fix s :: pystr and x2 g r
  assume m: "numbered_re s = Some x2" and x2: "(g, r) = x2"
  have suffix: "length r' \<le> length u"
    if "lazy_until dot stop u = Some (g', r')" for dot stop u g' and r' :: pystr
    using that by (induction u arbitrary: g') (auto split: if_splits)
  from m x2 have ahead: "numbered_ahead s"
    and l: "lazy_until dotall (\<lambda>u. numbered_ahead u \<or> at_end u)
              (dropWhile isspace (drop 1 (dropWhile isdecimal s))) = Some (g, r)"
    by (auto simp: numbered_re_def split: if_splits)
  from ahead have "take 1 (dropWhile isdecimal s) = [46]"
    by (simp add: numbered_ahead_def startswith_def)
  then have "dropWhile isdecimal s \<noteq> []"
    by (auto simp del: dropWhile_eq_Nil_conv)
  then have "length (drop 1 (dropWhile isdecimal s)) < length s"
    using length_dropWhile_le [of isdecimal s] by (cases "dropWhile isdecimal s") auto
  moreover have "length (dropWhile isspace (drop 1 (dropWhile isdecimal s)))
      \<le> length (drop 1 (dropWhile isdecimal s))"
    by (rule length_dropWhile_le)
  ultimately show "(r, s) \<in> measure length"
    using suffix [OF l] by simp
next
  fix s :: pystr and c s'
  assume "numbered_re s = None" "s = c # s'"
  then show "(s', s) \<in> measure length"
    by simp
qed

declare findall_numbered.simps [simp del]

section \<open>The response parser\<close>

text \<open>The pydantic model \<^verbatim>\<open>StoryChoice\<close> (fields \<^verbatim>\<open>id\<close> and \<^verbatim>\<open>text\<close>).\<close>

record StoryChoice =
  id_choice :: int
  text_choice :: pystr

text \<open>
  The numbered extraction of \<^verbatim>\<open>parse_paragraph_and_choices\<close>: \<^verbatim>\<open>enumerate(..., 1)\<close> numbers
  the matches, and a match whose stripped text is empty is skipped.
\<close>

definition numbered_choices :: "pystr \<Rightarrow> StoryChoice list" where
  "numbered_choices choices_text =
     map (\<lambda>(i, choice_match). \<lparr>id_choice = int i, text_choice = strip choice_match\<rparr>)
       (filter (\<lambda>(i, choice_match). strip choice_match \<noteq> [])
          (enumerate 1 (findall_numbered choices_text)))"

text \<open>
  The fallback: the lines that are not blank are numbered from 1, the first three are kept,
  each without its leading numbering.
\<close>

definition line_choices :: "pystr \<Rightarrow> StoryChoice list" where
  "line_choices choices_text =
     map (\<lambda>(i, line). \<lparr>id_choice = int i, text_choice = strip (sub_numbering line)\<rparr>)
       (filter (\<lambda>(i, line). i \<le> 3)
          (enumerate 1 (filter (\<lambda>l. strip l \<noteq> []) (split_nl choices_text))))"

definition parse_paragraph_and_choices ::
    "pystr \<Rightarrow> pystr \<times> StoryChoice list option \<times> pystr option" where
  "parse_paragraph_and_choices response_text =
     (let paragraph =
            (case re_search paragraph_re response_text of
               Some g \<Rightarrow> strip g
             | None \<Rightarrow> strip response_text);
          choices =
            (case re_search (to_end_re choices_marker) response_text of
               None \<Rightarrow> None
             | Some g \<Rightarrow>
                 (let choices_text = strip g;
                      choices = numbered_choices choices_text
                  in Some (if choices = [] then line_choices choices_text else choices)));
          title =
            (case re_search (to_end_re title_marker) response_text of
               None \<Rightarrow> None
             | Some g \<Rightarrow> Some (strip g))
      in (paragraph, choices, title))"

section \<open>Data model\<close>

text \<open>The enumerations and pydantic models of \<^verbatim>\<open>models.py\<close>.\<close>

datatype StoryLength = SHORT | MEDIUM | LONG

datatype StoryType =
  ROMANCE | HORROR | COMEDY | ACTION | ADVENTURE | DRAMA | FANTASY | HISTORICAL | MYSTERY | NONE

datatype CharacterGender = MALE | FEMALE

text \<open>The \<^verbatim>\<open>.value\<close> of a member of \<^verbatim>\<open>StoryType\<close> and of \<^verbatim>\<open>CharacterGender\<close>.\<close>

fun StoryType_value :: "StoryType \<Rightarrow> pystr" where
  "StoryType_value ROMANCE = [1585, 1608, 1605, 1575, 1606, 1587, 1610]"
| "StoryType_value HORROR = [1585, 1593, 1576]"
| "StoryType_value COMEDY = [1603, 1608, 1605, 1610, 1583, 1610]"
| "StoryType_value ACTION = [1571, 1603, 1588, 1606]"
| "StoryType_value ADVENTURE = [1605, 1594, 1575, 1605, 1585, 1577]"
| "StoryType_value DRAMA = [1583, 1585, 1575, 1605, 1575]"
| "StoryType_value FANTASY = [1582, 1610, 1575, 1604]"
| "StoryType_value HISTORICAL = [1578, 1575, 1585, 1610, 1582, 1610]"
| "StoryType_value MYSTERY = [1594, 1605, 1608, 1590]"
| "StoryType_value NONE = [1604, 1575]"

fun CharacterGender_value :: "CharacterGender \<Rightarrow> pystr" where
  "CharacterGender_value MALE = [1584, 1603, 1585]"
| "CharacterGender_value FEMALE = [1571, 1606, 1579, 1609]"

record Character =
  char_name :: pystr
  char_gender :: CharacterGender
  char_description :: pystr

record StoryConfig =
  cfg_length :: StoryLength
  cfg_primary_type :: StoryType
  cfg_secondary_type :: StoryType
  cfg_characters :: "Character list"

record StoryParagraph =
  par_content :: pystr
  par_choices :: "StoryChoice list option"

record StoryResponse =
  resp_story_id :: pystr
  resp_paragraph :: StoryParagraph
  resp_is_complete :: bool
  resp_title :: "pystr option"

text \<open>
  A chat message is the dictionary \<^verbatim>\<open>{"role": ..., "content": ...}\<close>; the code writes the three
  roles \<^verbatim>\<open>"system"\<close>, \<^verbatim>\<open>"user"\<close> and \<^verbatim>\<open>"assistant"\<close>.
\<close>

datatype role = System | User | Assistant

record message =
  msg_role :: role
  msg_content :: pystr

section \<open>The prompt builders\<close>

text \<open>\<^verbatim>\<open>str(n)\<close> of an integer, as an f-string writes it.\<close>

fun digits :: "nat \<Rightarrow> pystr" where
  "digits n = (if n < 10 then [48 + int n] else digits (n div 10) @ [48 + int (n mod 10)])"

declare digits.simps [simp del]

definition str_int :: "int \<Rightarrow> pystr" where
  "str_int i = (if i < 0 then 45 # digits (nat (- i)) else digits (nat i))"

definition get_system_prompt :: pystr where
  "get_system_prompt =
     concat
       [[10],
        asc ''    You are a professional and creative Arabic story writer. Your task is to write original, engaging, and cohesive Arabic stories.'' @
          [10],
        asc ''    '' @ [10],
        asc ''    Adhere to the following standards in all the stories you write:'' @ [10],
        [10],
        asc ''    1. Use correct and understandable classical Arabic language, free from grammatical and spelling errors.'' @
          [10],
        asc ''    2. Build a coherent and logical story that follows good dramatic structure principles (beginning, rising action, climax, resolution).'' @
          [10],
        asc ''    3. Adhere to Arabic and Islamic values and ethics in the story content.'' @
          [10],
        asc ''    4. Avoid inappropriate content or anything that violates public taste or religious values.'' @
          [10],
        asc ''    5. Provide detailed sensory descriptions of characters, places, and events to make the story vivid and engaging.'' @
          [10],
        asc ''    6. Make dialogue realistic and natural, appropriate to the story'' @ [39] @
          asc ''s characters and environment.'' @ [10],
        asc ''    7. Maintain consistency in character traits and behaviors throughout the story.'' @
          [10],
        asc ''    8. Include positive values and useful lessons in an indirect way.'' @ [10],
        asc ''    9. Use diverse narrative techniques: description, dialogue, narration, internal monologue.'' @
          [10],
        asc ''    10. Create a clear conflict that drives the story events and maintains reader interest.'' @
          [10],
        [10],
        asc ''    Each time you are asked to write a new paragraph of the story, you must:'' @
          [10],
        asc ''    - Write a coherent and engaging narrative paragraph of 4-6 lines in Arabic.'' @
          [10],
        asc ''    - Provide 3 distinctive and interesting options to develop the story'' @ [39] @
          asc ''s path.'' @ [10],
        asc ''    '' @ [10],
        asc ''    Important rules for options:'' @ [10],
        asc ''    1. Make options very practical and short (3-5 words only) in Arabic.'' @ [10],
        asc ''    2. ALWAYS start each option with the character'' @ [39] @
          asc ''s name followed by the action verb.'' @ [10],
        asc ''    3. Use clear format: '' @ [34] @ asc ''[Character name] + verb'' @ [34] @
          asc '', for example: '' @
          [34, 1571, 1581, 1605, 1583, 32, 1610, 1578, 1589, 1604, 32, 1576, 1575, 1604, 1588,
           1585, 1591, 1577, 34, 32] @
          asc ''(Ahmed calls the police), '' @
          [34, 1587, 1575, 1585, 1577, 32, 1578, 1607, 1585, 1576, 32, 1605, 1606, 32, 1575,
           1604, 1605, 1603, 1575, 1606, 34, 32] @
          asc ''(Sarah escapes from the place).'' @ [10],
        asc ''    4. Make it absolutely clear WHO is performing the action in each option.'' @
          [10],
        asc ''    5. Don'' @ [39] @
          asc ''t explain what will happen after the choice, just mention the direct action.'' @
          [10],
        asc ''    6. Ensure each option will lead to a completely different path in the story.'' @
          [10],
        asc ''    7. Make options logical and appropriate to the current situation in the story.'' @
          [10],
        asc ''    '' @ [10],
        asc ''    Result of user choice:'' @ [10],
        asc ''    1. Do not summarize the user'' @ [39] @
          asc ''s chosen option at the beginning of the next paragraph.'' @ [10],
        asc ''    2. Start directly with the reactions and consequences resulting from the user'' @
          [39] @ asc ''s choice.'' @ [10],
        asc ''    3. Present surprising and unexpected developments resulting from the choice.'' @
          [10],
        asc ''    4. Maintain story consistency despite the change in path.'' @ [10],
        asc ''    '' @ [10],
        asc ''    When the story is complete, choose an engaging and deep title that reflects the essence and content of the story.'' @
          [10],
        asc ''    '']"

text \<open>\<^verbatim>\<open>format_characters_info\<close>: one numbered line for each character, after a header.\<close>

definition format_characters_info :: "Character list \<Rightarrow> pystr" where
  "format_characters_info characters =
     (if characters = [] then
        [1604, 1575, 32, 1578, 1608, 1580, 1583, 32, 1588, 1582, 1589, 1610, 1575, 1578, 32,
           1605, 1581, 1583, 1583, 1577, 1548, 32, 1610, 1605, 1603, 1606, 1603, 32, 1573,
           1606, 1588, 1575, 1569, 32, 1588, 1582, 1589, 1610, 1575, 1578, 32, 1605, 1606,
           1575, 1587, 1576, 1577, 32, 1604, 1604, 1602, 1589, 1577] @
          asc ''.''
      else
        [1605, 1593, 1604, 1608, 1605, 1575, 1578, 32, 1575, 1604, 1588, 1582, 1589, 1610,
           1575, 1578] @
          asc '':'' @ [10] @
        concat (map (\<lambda>(i, character).
            (let gender_text =
                   (if CharacterGender_value (char_gender character) =
                         [1584, 1603, 1585]
                    then [1584, 1603, 1585]
                    else [1571, 1606, 1579, 1609])
             in str_int (int i) @ asc ''. '' @ [1575, 1604, 1588, 1582, 1589, 1610, 1577] @
                  asc '': '' @ char_name character @ [1548, 32, 1575, 1604, 1580, 1606, 1587] @
                  asc '': '' @ gender_text @ [1548, 32, 1575, 1604, 1608, 1589, 1601] @ asc '': '' @
                  char_description character @ [10]))
          (enumerate 1 characters)))"

text \<open>The dictionary that \<^verbatim>\<open>get_story_length_instructions\<close> returns.\<close>

record length_info =
  info_paragraphs :: int
  info_description :: pystr

fun get_story_length_instructions :: "StoryLength \<Rightarrow> length_info" where
  "get_story_length_instructions SHORT =
     \<lparr>info_paragraphs = 3,
      info_description = [1602, 1589, 1577, 32, 1602, 1589, 1610, 1585, 1577, 32, 1578, 1578, 1603, 1608,
           1606, 32, 1605, 1606, 32] @
          asc ''3 '' @ [1601, 1602, 1585, 1575, 1578]\<rparr>"
| "get_story_length_instructions MEDIUM =
     \<lparr>info_paragraphs = 5,
      info_description = [1602, 1589, 1577, 32, 1605, 1578, 1608, 1587, 1591, 1577, 32, 1575, 1604, 1591,
           1608, 1604, 32, 1578, 1578, 1603, 1608, 1606, 32, 1605, 1606, 32] @
          asc ''5 '' @ [1601, 1602, 1585, 1575, 1578]\<rparr>"
| "get_story_length_instructions LONG =
     \<lparr>info_paragraphs = 7,
      info_description = [1602, 1589, 1577, 32, 1591, 1608, 1610, 1604, 1577, 32, 1578, 1578, 1603, 1608,
           1606, 32, 1605, 1606, 32] @
          asc ''7 '' @ [1601, 1602, 1585, 1575, 1578]\<rparr>"

definition get_story_type_description :: "StoryType \<Rightarrow> StoryType \<Rightarrow> pystr" where
  "get_story_type_description primary_type secondary_type =
     (if secondary_type = NONE then
        [1602, 1589, 1577, 32, 1605, 1606, 32, 1606, 1608, 1593, 32] @
          StoryType_value primary_type
      else
        [1602, 1589, 1577, 32, 1578, 1580, 1605, 1593, 32, 1576, 1610, 1606, 32, 1606, 1608,
           1593, 1610, 32] @
          StoryType_value primary_type @ asc '' '' @ [1608] @ StoryType_value secondary_type)"

definition create_story_init_prompt :: "StoryConfig \<Rightarrow> pystr" where
  "create_story_init_prompt config =
     (let length_info = get_story_length_instructions (cfg_length config);
          story_type =
            get_story_type_description (cfg_primary_type config) (cfg_secondary_type config);
          characters_info = format_characters_info (cfg_characters config)
      in concat
         [[10],
          asc ''    Please write '' @ info_description length_info @ asc '' of '' @ story_type @
            asc ''.'' @ [10],
          asc ''    '' @ [10],
          asc ''    '' @ characters_info @ [10],
          asc ''    '' @ [10],
          asc ''    Required from you:'' @ [10],
          asc ''    1. Write the first paragraph of the story (4-6 lines) in Arabic.'' @ [10],
          asc ''    2. Start the story with a strong and engaging beginning that captivates the reader from the first line.'' @
            [10],
          asc ''    3. Present the characters and setting (place and time) clearly and interestingly.'' @
            [10],
          asc ''    4. Establish a conflict, problem, or situation that drives the story events.'' @
            [10],
          asc ''    5. Present 3 short, exciting, and logical options for actions the protagonist can take.'' @
            [10],
          asc ''    6. Make the options very short (3-5 words only) and practical and direct.'' @
            [10],
          asc ''    7. ALWAYS include the character'' @ [39] @
            asc ''s name in each option before the action verb.'' @ [10],
          asc ''    8. Format: '' @ [34] @ asc ''[Character name] + verb'' @ [34] @
            asc '', like: '' @
            [34, 1571, 1581, 1605, 1583, 32, 1610, 1578, 1589, 1604, 32, 1576, 1575, 1604,
             1588, 1585, 1591, 1577, 34] @
            asc '', '' @
            [34, 1587, 1575, 1585, 1577, 32, 1578, 1607, 1585, 1576, 32, 1605, 1606, 32, 1575,
             1604, 1605, 1603, 1575, 1606, 34] @
            asc ''.'' @ [10],
          asc ''    '' @ [10],
          asc ''    Present the first paragraph and options in the following format:'' @ [10],
          asc ''    '' @ [10],
          asc ''    '' @ [1575, 1604, 1601, 1602, 1585, 1577] @ asc '':'' @ [10],
          asc ''    [Write the first paragraph of the story here in Arabic]'' @ [10],
          asc ''    '' @ [10],
          asc ''    '' @ [1575, 1604, 1582, 1610, 1575, 1585, 1575, 1578] @ asc '':'' @ [10],
          asc ''    1. [Character name + action verb in Arabic, 3-5 words total]'' @ [10],
          asc ''    2. [Character name + different action verb in Arabic, 3-5 words total]'' @
            [10],
          asc ''    3. [Character name + another different action verb in Arabic, 3-5 words total]'' @
            [10],
          asc ''    ''])"

definition create_continuation_prompt :: "pystr \<Rightarrow> int \<Rightarrow> pystr \<Rightarrow> int \<Rightarrow> int \<Rightarrow> pystr" where
  "create_continuation_prompt story_context choice_id choice_text current_paragraph
       max_paragraphs =
     (let is_final = (current_paragraph \<ge> max_paragraphs - 1);
          prompt =
            concat
            [[10],
             asc ''    Story context so far:'' @ [10],
             asc ''    '' @ story_context @ [10],
             asc ''    '' @ [10],
             asc ''    The user chose path number '' @ str_int choice_id @ asc '': '' @
               choice_text @ [10],
             asc ''    '' @ [10],
             asc ''    Required from you:'' @ [10],
             asc ''    1. Continue writing the story with a new paragraph (4-6 lines) in Arabic that directly follows the choice made by the user.'' @
               [10],
             asc ''    2. Do not summarize the choice that the user made; instead, start directly with the events that result from this choice.'' @
               [10],
             asc ''    3. Add unexpected and exciting developments to engage the reader.'' @
               [10],
             asc ''    4. Maintain consistency in the story'' @ [39] @
               asc ''s characters and world.'' @ [10],
             asc ''    '']
      in if is_final then
           prompt @
           concat
           [[10],
            asc ''    5. This is the final paragraph of the story, so end the story in a logical and satisfying way that closes all open paths.'' @
              [10],
            asc ''    6. Suggest an appropriate and deep title for the complete story.'' @ [10],
            asc ''    '' @ [10],
            asc ''    Present the final paragraph and title in the following format:'' @ [10],
            asc ''    '' @ [10],
            asc ''    '' @ [1575, 1604, 1601, 1602, 1585, 1577] @ asc '':'' @ [10],
            asc ''    [Write the final paragraph of the story here in Arabic]'' @ [10],
            asc ''    '' @ [10],
            asc ''    '' @ [1575, 1604, 1593, 1606, 1608, 1575, 1606] @ asc '':'' @ [10],
            asc ''    [Write the suggested title for the story here in Arabic]'' @ [10],
            asc ''    '']
         else
           prompt @
           concat
           [[10],
            asc ''    5. Present 3 short, logical, and practical options for continuing the story.'' @
              [10],
            asc ''    6. Make the options very short (3-5 words only) in Arabic.'' @ [10],
            asc ''    7. ALWAYS include the character'' @ [39] @
              asc ''s name in each option before the action verb.'' @ [10],
            asc ''    8. Format: '' @ [34] @ asc ''[Character name] + verb'' @ [34] @
              asc '', like: '' @
              [34, 1571, 1581, 1605, 1583, 32, 1610, 1578, 1589, 1604, 32, 1576, 1575, 1604,
               1588, 1585, 1591, 1577, 34] @
              asc '', '' @
              [34, 1587, 1575, 1585, 1577, 32, 1578, 1607, 1585, 1576, 32, 1605, 1606, 32,
               1575, 1604, 1605, 1603, 1575, 1606, 34] @
              asc ''.'' @ [10],
            asc ''    9. Make it absolutely clear WHO is performing the action in each option.'' @
              [10],
            asc ''    10. Ensure each option will lead to a completely different path in the story.'' @
              [10],
            asc ''    '' @ [10],
            asc ''    Present the next paragraph and options in the following format:'' @ [10],
            asc ''    '' @ [10],
            asc ''    '' @ [1575, 1604, 1601, 1602, 1585, 1577] @ asc '':'' @ [10],
            asc ''    [Write the next paragraph of the story here in Arabic]'' @ [10],
            asc ''    '' @ [10],
            asc ''    '' @ [1575, 1604, 1582, 1610, 1575, 1585, 1575, 1578] @ asc '':'' @ [10],
            asc ''    1. [Character name + action verb in Arabic, 3-5 words total]'' @ [10],
            asc ''    2. [Character name + different action verb in Arabic, 3-5 words total]'' @
              [10],
            asc ''    3. [Character name + another different action verb in Arabic, 3-5 words total]'' @
              [10],
            asc ''    ''])"

definition create_title_prompt :: "pystr \<Rightarrow> pystr" where
  "create_title_prompt complete_story =
     concat
     [[10],
      asc ''    Here is a complete story:'' @ [10],
      asc ''    '' @ [10],
      asc ''    '' @ complete_story @ [10],
      asc ''    '' @ [10],
      asc ''    Suggest an appropriate and engaging title for this story that reflects its essence and content.'' @
        [10],
      asc ''    Provide only the title without any additional explanation and without any story Characters names in Arabic.'' @
        [10],
      asc ''    '']"

section \<open>The model client\<close>

text \<open>
  The exceptions the code raises: \<^verbatim>\<open>ValueError(msg)\<close> and \<^verbatim>\<open>Exception(msg)\<close>, and the
  \<^verbatim>\<open>IndexError\<close> of \<^verbatim>\<open>messages[-1]\<close> on an empty list.
\<close>

datatype exn = ValueError pystr | Exception pystr | IndexError

text \<open>
  What one \<^verbatim>\<open>client.post\<close> does: it returns a response (status code, text, and what
  \<^verbatim>\<open>response.json()\<close> gives), or raises \<^verbatim>\<open>httpx.HTTPError\<close>, or something else is raised
  inside the \<^verbatim>\<open>try\<close> block; an exception is given by its \<^verbatim>\<open>str(e)\<close>.

  Of the JSON payload the code reads the \<^verbatim>\<open>"choices"\<close> field only: \<open>None\<close> when the key is
  absent, the empty list when its value is falsy, and otherwise the list whose first entry is
  \<open>Inr content\<close> when \<^verbatim>\<open>["message"]["content"]\<close> can be read from it and \<open>Inl (str e)\<close> when
  reading it raises \<open>e\<close>. \<open>JsonError\<close> is a body for which \<^verbatim>\<open>response.json()\<close> or the test of
  the key raises.
\<close>

datatype json_result = JsonError pystr | JsonObject "(pystr + pystr) list option"

datatype http_result = Response int pystr json_result | HTTPError pystr | OtherError pystr

text \<open>
  What the client does to the outside: a request with the messages, or a sleep of so many
  seconds. The waiting time is \<^verbatim>\<open>backoff_factor * (2 ** attempt)\<close>, a float in the source and
  a rational here (exact for the default factor 1.5).
\<close>

datatype event = Post "message list" | Sleep rat

text \<open>
  The exceptions of \<^verbatim>\<open>generate_response\<close>, each an \<^verbatim>\<open>Exception\<close> with its message: the
  missing API key (line 48), a status code other than 200 and 429 (line 83), the payload
  without choices (line 94), the wrapper of an \<^verbatim>\<open>httpx.HTTPError\<close> (line 99), the wrapper of
  any other exception (line 109), and the one raised after the loop when no attempt recorded
  an exception (line 119).
\<close>

definition missing_api_key :: exn where
  "missing_api_key =
     Exception ([1605, 1601, 1578, 1575, 1581, 32] @ asc ''API '' @
                  [1594, 1610, 1585, 32, 1605, 1578, 1608, 1601, 1585] @ asc ''. '' @
                  [1610, 1585, 1580, 1609, 32, 1575, 1604, 1578, 1581, 1602, 1602, 32, 1605,
                   1606, 32, 1573, 1593, 1583, 1575, 1583, 32, 1575, 1604, 1605, 1578, 1594,
                   1610, 1585, 1575, 1578, 32, 1575, 1604, 1576, 1610, 1574, 1610, 1577] @
                  asc ''.'')"

definition request_failed :: "int \<Rightarrow> pystr \<Rightarrow> exn" where
  "request_failed status_code text =
     Exception ([1601, 1588, 1604, 32, 1591, 1604, 1576, 32] @ asc ''DeepSeek API: '' @
                  str_int status_code @ asc '' - '' @ text)"

definition invalid_format_message :: pystr where
  "invalid_format_message =
     [1578, 1606, 1587, 1610, 1602, 32, 1575, 1587, 1578, 1580, 1575, 1576, 1577, 32] @
       asc ''DeepSeek API '' @ [1594, 1610, 1585, 32, 1589, 1575, 1604, 1581]"

definition http_error :: "pystr \<Rightarrow> exn" where
  "http_error e =
     Exception ([1582, 1591, 1571, 32, 1601, 1610, 32, 1575, 1578, 1589, 1575, 1604, 32] @
                  asc ''HTTP: '' @ e)"

definition unexpected_error :: "pystr \<Rightarrow> exn" where
  "unexpected_error e =
     Exception ([1582, 1591, 1571, 32, 1594, 1610, 1585, 32, 1605, 1578, 1608, 1602, 1593] @
                  asc '': '' @ e)"

definition all_attempts_failed :: exn where
  "all_attempts_failed =
     Exception ([1601, 1588, 1604, 32, 1575, 1604, 1575, 1578, 1589, 1575, 1604, 32, 1576,
                   1600, 32] @
                  asc ''DeepSeek API '' @
                  [1576, 1593, 1583, 32, 1593, 1583, 1577, 32, 1605, 1581, 1575, 1608, 1604,
                   1575, 1578])"

text \<open>
  The loop \<^verbatim>\<open>for attempt in range(retries)\<close> of \<^verbatim>\<open>generate_response\<close>: \<open>attempt\<close> is the
  loop variable, \<open>n\<close> the number of iterations left, \<open>post k\<close> what the request of attempt
  \<open>k\<close> does. Every path through the body either returns the content or sleeps and goes on
  with the next attempt: the \<^verbatim>\<open>raise\<close> for a payload without choices is inside the
  \<^verbatim>\<open>try\<close>, so the handler \<^verbatim>\<open>except Exception\<close> catches it like any other exception.
  After the loop the last recorded exception is raised, or \<open>all_attempts_failed\<close>.
\<close>

fun attempt_loop ::
    "(nat \<Rightarrow> http_result) \<Rightarrow> message list \<Rightarrow> rat \<Rightarrow> nat \<Rightarrow> nat \<Rightarrow> exn option
       \<Rightarrow> (exn + pystr) \<times> event list" where
  "attempt_loop post messages backoff_factor attempt 0 last_exception =
     (case last_exception of
        Some e \<Rightarrow> (Inl e, [])
      | None \<Rightarrow> (Inl all_attempts_failed, []))"
| "attempt_loop post messages backoff_factor attempt (Suc n) last_exception =
     (let wait_time = backoff_factor * 2 ^ attempt;
          continue = (\<lambda>last_exception.
             (let (r, evs) = attempt_loop post messages backoff_factor (Suc attempt) n
                               last_exception
              in (r, Post messages # Sleep wait_time # evs)))
      in case post attempt of
           Response status_code text body \<Rightarrow>
             if status_code = 429 then continue last_exception
             else if status_code \<noteq> 200 then continue (Some (request_failed status_code text))
             else
               (case body of
                  JsonError e \<Rightarrow> continue (Some (unexpected_error e))
                | JsonObject None \<Rightarrow> continue (Some (unexpected_error invalid_format_message))
                | JsonObject (Some []) \<Rightarrow>
                    continue (Some (unexpected_error invalid_format_message))
                | JsonObject (Some (Inl e # rest)) \<Rightarrow> continue (Some (unexpected_error e))
                | JsonObject (Some (Inr content # rest)) \<Rightarrow> (Inr content, [Post messages]))
         | HTTPError e \<Rightarrow> continue (Some (http_error e))
         | OtherError e \<Rightarrow> continue (Some (unexpected_error e)))"

text \<open>
  \<^verbatim>\<open>generate_response\<close>: the result (the content, or the exception raised) and what it did.
  \<open>DEEPSEEK_API_KEY\<close> is the value of the environment variable (\<open>None\<close> when unset).
\<close>

definition generate_response ::
    "pystr option \<Rightarrow> (nat \<Rightarrow> http_result) \<Rightarrow> message list \<Rightarrow> nat \<Rightarrow> rat
       \<Rightarrow> (exn + pystr) \<times> event list" where
  "generate_response DEEPSEEK_API_KEY post messages retries backoff_factor =
     (if DEEPSEEK_API_KEY = None \<or> DEEPSEEK_API_KEY = Some [] then (Inl missing_api_key, [])
      else attempt_loop post messages backoff_factor 0 retries None)"

text \<open>The number of requests made and the number of sleeps.\<close>

fun is_post :: "event \<Rightarrow> bool" where
  "is_post (Post m) = True"
| "is_post (Sleep t) = False"

definition requests :: "event list \<Rightarrow> nat" where
  "requests evs = length (filter is_post evs)"

definition sleeps :: "event list \<Rightarrow> nat" where
  "sleeps evs = length (filter (\<lambda>e. \<not> is_post e) evs)"

text \<open>
  A response with status 200 whose payload has no \<^verbatim>\<open>"choices"\<close> field, or an empty one.
\<close>

fun malformed :: "http_result \<Rightarrow> bool" where
  "malformed (Response status_code text (JsonObject None)) = (status_code = 200)"
| "malformed (Response status_code text (JsonObject (Some []))) = (status_code = 200)"
| "malformed other = False"

section \<open>The session store\<close>

text \<open>
  The module keeps two global dictionaries, \<^verbatim>\<open>stories_context\<close> and \<^verbatim>\<open>stories_metadata\<close>, from
  story ids to one dictionary each. The lists of paragraph texts and of messages are Python
  list objects: the operations bind them to local names and change them in place with
  \<^verbatim>\<open>append\<close>. They are therefore kept in an explicit store of list objects, and a dictionary
  holds the reference of its list, so that a name bound to \<^verbatim>\<open>metadata["messages"]\<close> denotes
  the stored list itself and not a copy. The two dictionaries of a session are created by
  \<^verbatim>\<open>initialize_story\<close> and reached only through the global dictionaries; they are the
  entries of the two maps.
\<close>

type_synonym ref = nat

record story_context =
  ctx_paragraphs :: ref
  ctx_current_paragraph :: int

record story_metadata =
  md_config :: StoryConfig
  md_max_paragraphs :: int
  md_messages :: ref
  md_title :: "pystr option"

record world =
  stories_context :: "pystr \<rightharpoonup> story_context"
  stories_metadata :: "pystr \<rightharpoonup> story_metadata"
  str_lists :: "ref \<Rightarrow> pystr list"
  msg_lists :: "ref \<Rightarrow> message list"
  next_ref :: ref

text \<open>The state of the module after import: both dictionaries empty.\<close>

definition empty_world :: world where
  "empty_world =
     \<lparr>stories_context = Map.empty, stories_metadata = Map.empty,
      str_lists = (\<lambda>r. []), msg_lists = (\<lambda>r. []), next_ref = 0\<rparr>"

text \<open>A list display or a concatenation creates a new list object.\<close>

definition new_str_list :: "pystr list \<Rightarrow> world \<Rightarrow> ref \<times> world" where
  "new_str_list xs w =
     (next_ref w, w\<lparr>str_lists := (str_lists w)(next_ref w := xs), next_ref := Suc (next_ref w)\<rparr>)"

definition new_msg_list :: "message list \<Rightarrow> world \<Rightarrow> ref \<times> world" where
  "new_msg_list xs w =
     (next_ref w, w\<lparr>msg_lists := (msg_lists w)(next_ref w := xs), next_ref := Suc (next_ref w)\<rparr>)"

text \<open>\<^verbatim>\<open>xs.append(x)\<close> on the list object at a reference.\<close>

definition str_append :: "ref \<Rightarrow> pystr \<Rightarrow> world \<Rightarrow> world" where
  "str_append r x w = w\<lparr>str_lists := (str_lists w)(r := str_lists w r @ [x])\<rparr>"

definition msg_append :: "ref \<Rightarrow> message \<Rightarrow> world \<Rightarrow> world" where
  "msg_append r x w = w\<lparr>msg_lists := (msg_lists w)(r := msg_lists w r @ [x])\<rparr>"

text \<open>
  What a caller observes of a session: the stored paragraph texts, the paragraph index, the
  message history and the title.
\<close>

record session_view =
  view_paragraphs :: "pystr list"
  view_current_paragraph :: int
  view_max_paragraphs :: int
  view_messages :: "message list"
  view_title :: "pystr option"

definition session :: "world \<Rightarrow> pystr \<Rightarrow> session_view option" where
  "session w story_id =
     (case (stories_context w story_id, stories_metadata w story_id) of
        (Some context, Some metadata) \<Rightarrow>
          Some \<lparr>view_paragraphs = str_lists w (ctx_paragraphs context),
                view_current_paragraph = ctx_current_paragraph context,
                view_max_paragraphs = md_max_paragraphs metadata,
                view_messages = msg_lists w (md_messages metadata),
                view_title = md_title metadata\<rparr>
      | _ \<Rightarrow> None)"

text \<open>
  The result of an operation: what it returns or raises, the store it leaves, and the
  message lists it handed to \<^verbatim>\<open>generate_response\<close>.
\<close>

record 'a outcome =
  result :: "exn + 'a"
  store :: world
  calls :: "message list list"

text \<open>The truth value of an optional string: \<^verbatim>\<open>None\<close> and \<^verbatim>\<open>""\<close> are false.\<close>

fun truthy :: "pystr option \<Rightarrow> bool" where
  "truthy None = False"
| "truthy (Some s) = (s \<noteq> [])"

definition invalid_story_id :: exn where
  "invalid_story_id =
     ValueError ([1605, 1593, 1585, 1601, 32, 1575, 1604, 1602, 1589, 1577, 32, 1594, 1610,
                    1585, 32, 1589, 1575, 1604, 1581])"

definition invalid_choice :: exn where
  "invalid_choice =
     ValueError ([1605, 1593, 1585, 1601, 32, 1575, 1604, 1575, 1582, 1578, 1610, 1575, 1585,
                    32, 1594, 1610, 1585, 32, 1589, 1575, 1604, 1581])"

section \<open>The operations on a session\<close>

text \<open>
  Each operation awaits \<^verbatim>\<open>generate_response\<close> at most once; \<open>reply\<close> is what that call gives,
  \<open>Inl e\<close> when it raises \<open>e\<close> and \<open>Inr response_text\<close> when it returns. The story id that
  \<^verbatim>\<open>uuid.uuid4()\<close> draws is the argument \<open>story_id\<close> of \<open>initialize_story\<close>.
\<close>

definition initialize_story ::
    "pystr \<Rightarrow> exn + pystr \<Rightarrow> world \<Rightarrow> StoryConfig \<Rightarrow> StoryResponse outcome" where
  "initialize_story story_id reply w config =
     (let system_prompt = get_system_prompt;
          user_prompt = create_story_init_prompt config;
          messages = [\<lparr>msg_role = System, msg_content = system_prompt\<rparr>,
                      \<lparr>msg_role = User, msg_content = user_prompt\<rparr>]
      in case reply of
           Inl e \<Rightarrow> \<lparr>result = Inl e, store = w, calls = [messages]\<rparr>
         | Inr response_text \<Rightarrow>
             (let (paragraph_text, choices, title) = parse_paragraph_and_choices response_text;
                  paragraph = \<lparr>par_content = paragraph_text, par_choices = choices\<rparr>;
                  (paragraphs, w1) = new_str_list [paragraph_text] w;
                  w2 = w1\<lparr>stories_context := (stories_context w1)(story_id \<mapsto>
                          \<lparr>ctx_paragraphs = paragraphs, ctx_current_paragraph = 1\<rparr>)\<rparr>;
                  length_info = get_story_length_instructions (cfg_length config);
                  (stored_messages, w3) =
                     new_msg_list
                       (messages @ [\<lparr>msg_role = Assistant, msg_content = response_text\<rparr>]) w2;
                  w4 = w3\<lparr>stories_metadata := (stories_metadata w3)(story_id \<mapsto>
                          \<lparr>md_config = config,
                           md_max_paragraphs = info_paragraphs length_info,
                           md_messages = stored_messages,
                           md_title = None\<rparr>)\<rparr>;
                  story_response =
                     \<lparr>resp_story_id = story_id, resp_paragraph = paragraph,
                      resp_is_complete = False, resp_title = None\<rparr>
              in \<lparr>result = Inr story_response, store = w4, calls = [messages]\<rparr>))"

text \<open>
  \<^verbatim>\<open>continue_story\<close>. The names \<open>paragraphs\<close> and \<open>messages\<close> are bound to the stored list
  objects (lines 226 and 231), so \<^verbatim>\<open>messages.append\<close> before the model call (line 253)
  changes the stored history, and an exception of the call (line 256) leaves the function
  with that change made. The item assignments to \<open>context\<close> and \<open>metadata\<close> all come
  after the call.
\<close>

definition continue_story ::
    "exn + pystr \<Rightarrow> world \<Rightarrow> pystr \<Rightarrow> int \<Rightarrow> StoryResponse outcome" where
  "continue_story reply w story_id choice_id =
     (case (stories_context w story_id, stories_metadata w story_id) of
        (Some context, Some metadata) \<Rightarrow>
          (let paragraphs = ctx_paragraphs context;
               current_paragraph = ctx_current_paragraph context;
               max_paragraphs = md_max_paragraphs metadata;
               messages = md_messages metadata
           in if msg_lists w messages = [] then \<lparr>result = Inl IndexError, store = w, calls = []\<rparr>
              else
                (let last_message = msg_content (last (msg_lists w messages));
                     (paragraph_text, choices, title) = parse_paragraph_and_choices last_message
                 in case choices of
                      None \<Rightarrow> \<lparr>result = Inl invalid_choice, store = w, calls = []\<rparr>
                    | Some choices \<Rightarrow>
                        if choices = [] \<or> choice_id < 1 \<or> choice_id > int (length choices) then
                          \<lparr>result = Inl invalid_choice, store = w, calls = []\<rparr>
                        else
                          (let choice_text =
                                 (case filter (\<lambda>c. id_choice c = choice_id) choices of
                                    [] \<Rightarrow> []
                                  | c # cs \<Rightarrow> text_choice c);
                               story_context_text = join [10] (str_lists w paragraphs);
                               continuation_prompt =
                                 create_continuation_prompt story_context_text choice_id
                                   choice_text current_paragraph max_paragraphs;
                               w1 = msg_append messages
                                      \<lparr>msg_role = User, msg_content = continuation_prompt\<rparr> w;
                               sent = msg_lists w1 messages
                           in case reply of
                                Inl e \<Rightarrow> \<lparr>result = Inl e, store = w1, calls = [sent]\<rparr>
                              | Inr response_text \<Rightarrow>
                                  (let (paragraph_text, choices, title) =
                                         parse_paragraph_and_choices response_text;
                                       w2 = str_append paragraphs paragraph_text w1;
                                       context = context
                                         \<lparr>ctx_current_paragraph := ctx_current_paragraph context + 1\<rparr>;
                                       context = context\<lparr>ctx_paragraphs := paragraphs\<rparr>;
                                       is_complete = (current_paragraph \<ge> max_paragraphs - 1);
                                       metadata =
                                         (if is_complete \<and> truthy title
                                          then metadata\<lparr>md_title := title\<rparr> else metadata);
                                       w3 = msg_append messages
                                              \<lparr>msg_role = Assistant, msg_content = response_text\<rparr> w2;
                                       metadata = metadata\<lparr>md_messages := messages\<rparr>;
                                       w4 = w3\<lparr>stories_context :=
                                                 (stories_context w3)(story_id \<mapsto> context),
                                               stories_metadata :=
                                                 (stories_metadata w3)(story_id \<mapsto> metadata)\<rparr>;
                                       paragraph =
                                         \<lparr>par_content = paragraph_text,
                                          par_choices = (if is_complete then None else choices)\<rparr>;
                                       story_response =
                                         \<lparr>resp_story_id = story_id, resp_paragraph = paragraph,
                                          resp_is_complete = is_complete,
                                          resp_title =
                                            (if is_complete then md_title metadata else None)\<rparr>
                                   in \<lparr>result = Inr story_response, store = w4,
                                       calls = [sent]\<rparr>))))
      | _ \<Rightarrow> \<lparr>result = Inl invalid_story_id, store = w, calls = []\<rparr>)"

text \<open>
  The prompt that \<^verbatim>\<open>continue_story_with_text\<close> builds in place (the f-string bound to
  \<^verbatim>\<open>custom_prompt\<close>, lines 321 to 349).
\<close>

definition custom_prompt :: "pystr \<Rightarrow> pystr \<Rightarrow> int \<Rightarrow> int \<Rightarrow> pystr" where
  "custom_prompt story_context_text custom_text current_paragraph max_paragraphs =
     concat
     [[10],
      [1604, 1602, 1583, 32, 1608, 1589, 1604, 1606, 1575, 32, 1573, 1604, 1609, 32, 1607,
         1584, 1607, 32, 1575, 1604, 1606, 1602, 1591, 1577, 32, 1601, 1610, 32, 1575, 1604,
         1602, 1589, 1577] @
        asc '':'' @ [10],
      [10],
      story_context_text @ [10],
      [10],
      [1575, 1604, 1605, 1587, 1578, 1582, 1583, 1605, 32, 1575, 1582, 1578, 1575, 1585, 32,
         1571, 1606, 32, 1610, 1603, 1578, 1576, 32, 1585, 1583, 1575, 1611, 32, 1605, 1582,
         1589, 1589, 1575, 1611, 32, 1576, 1583, 1604, 1575, 1611, 32, 1605, 1606, 32, 1575,
         1582, 1578, 1610, 1575, 1585, 32, 1571, 1581, 1583, 32, 1575, 1604, 1582, 1610, 1575,
         1585, 1575, 1578, 32, 1575, 1604, 1605, 1602, 1583, 1605, 1577] @
        asc ''. '' @
        [1575, 1604, 1585, 1583, 32, 1575, 1604, 1605, 1582, 1589, 1589, 32, 1604, 1604, 1605,
         1587, 1578, 1582, 1583, 1605, 32, 1607, 1608] @
        asc '':'' @ [10],
      [10],
      [34] @ custom_text @ [34, 10],
      [10],
      [1576, 1606, 1575, 1569, 1611, 32, 1593, 1604, 1609, 32, 1607, 1584, 1575, 32, 1575,
         1604, 1605, 1583, 1582, 1604, 32, 1605, 1606, 32, 1575, 1604, 1605, 1587, 1578, 1582,
         1583, 1605, 1548, 32, 1575, 1587, 1578, 1605, 1585, 32, 1601, 1610, 32, 1575, 1604,
         1602, 1589, 1577, 32, 1608, 1575, 1603, 1578, 1576, 32, 1601, 1602, 1585, 1577, 32,
         1580, 1583, 1610, 1583, 1577, 32, 1578, 1571, 1582, 1584, 32, 1576, 1593, 1610, 1606,
         32, 1575, 1604, 1575, 1593, 1578, 1576, 1575, 1585, 32, 1605, 1575, 32, 1603, 1578,
         1576, 1607, 32, 1575, 1604, 1605, 1587, 1578, 1582, 1583, 1605] @
        asc ''.'' @ [10],
      [1579, 1605, 32, 1602, 1583, 1605, 32] @ asc ''3 '' @
        [1582, 1610, 1575, 1585, 1575, 1578, 32, 1580, 1583, 1610, 1583, 1577, 32, 1604, 1604,
         1605, 1587, 1578, 1582, 1583, 1605, 32, 1604, 1610, 1582, 1578, 1575, 1585, 32, 1605,
         1606, 1607, 1575, 32, 1604, 1604, 1575, 1587, 1578, 1605, 1585, 1575, 1585, 32, 1601,
         1610, 32, 1575, 1604, 1602, 1589, 1577] @
        asc ''.'' @ [10],
      [10],
      [1578, 1584, 1603, 1585, 32, 1571, 1606, 32, 1575, 1604, 1602, 1589, 1577, 32, 1575,
         1604, 1570, 1606, 32, 1601, 1610] @
        asc '':'' @ [10],
      asc ''- '' @ [1575, 1604, 1601, 1602, 1585, 1577, 32, 1585, 1602, 1605] @ asc '': '' @
        str_int current_paragraph @ asc '' '' @ [1605, 1606, 32] @ str_int max_paragraphs @ [10],
      asc ''- '' @
        [1573, 1584, 1575, 32, 1603, 1575, 1606, 1578, 32, 1607, 1584, 1607, 32, 1575, 1604,
         1601, 1602, 1585, 1577, 32, 1575, 1604, 1571, 1582, 1610, 1585, 1577, 32, 1571, 1608,
         32, 1602, 1576, 1604, 32, 1575, 1604, 1571, 1582, 1610, 1585, 1577, 1548, 32, 1602,
         1605, 32, 1576, 1582, 1578, 1605, 32, 1575, 1604, 1602, 1589, 1577, 32, 1576, 1588,
         1603, 1604, 32, 1605, 1606, 1575, 1587, 1576] @
        asc ''.'' @ [10],
      [10],
      [1610, 1580, 1576, 32, 1571, 1606, 32, 1610, 1603, 1608, 1606, 32, 1578, 1606, 1587,
         1610, 1602, 32, 1585, 1583, 1603, 32, 1603, 1605, 1575, 32, 1610, 1604, 1610] @
        asc '':'' @ [10],
      [10],
      [1575, 1604, 1601, 1602, 1585, 1577] @ asc '': ['' @
        [1606, 1589, 32, 1575, 1604, 1601, 1602, 1585, 1577, 32, 1575, 1604, 1580, 1583, 1610,
         1583, 1577, 32, 1605, 1606, 32, 1575, 1604, 1602, 1589, 1577] @
        asc '']'' @ [10],
      [10],
      [1575, 1604, 1582, 1610, 1575, 1585, 1575, 1578] @ asc '':'' @ [10],
      asc ''1. ['' @ [1575, 1604, 1582, 1610, 1575, 1585, 32, 1575, 1604, 1571, 1608, 1604] @
        asc '']'' @ [10],
      asc ''2. ['' @
        [1575, 1604, 1582, 1610, 1575, 1585, 32, 1575, 1604, 1579, 1575, 1606,
         1610] @ asc '']'' @
        [10],
      asc ''3. ['' @
        [1575, 1604, 1582, 1610, 1575, 1585, 32, 1575, 1604, 1579, 1575, 1604,
         1579] @ asc '']'' @
        [10],
      [10],
      [1573, 1584, 1575, 32, 1603, 1575, 1606, 1578, 32, 1607, 1584, 1607, 32, 1575, 1604,
         1601, 1602, 1585, 1577, 32, 1575, 1604, 1571, 1582, 1610, 1585, 1577, 1548, 32, 1571,
         1590, 1601, 32, 1593, 1606, 1608, 1575, 1606, 1575, 1611, 32, 1604, 1604, 1602, 1589,
         1577] @
        asc '':'' @ [10],
      [10],
      [1575, 1604, 1593, 1606, 1608, 1575, 1606] @ asc '': ['' @
        [1593, 1606, 1608, 1575, 1606, 32, 1605, 1606, 1575, 1587, 1576, 32, 1604, 1604, 1602,
         1589, 1577, 32, 1603, 1575, 1605, 1604, 1577] @
        asc '']'' @ [10]]"

text \<open>
  \<^verbatim>\<open>continue_story_with_text\<close>: the same transition, with the user's own text in the prompt
  and no choice to validate.
\<close>

definition continue_story_with_text ::
    "exn + pystr \<Rightarrow> world \<Rightarrow> pystr \<Rightarrow> pystr \<Rightarrow> StoryResponse outcome" where
  "continue_story_with_text reply w story_id custom_text =
     (case (stories_context w story_id, stories_metadata w story_id) of
        (Some context, Some metadata) \<Rightarrow>
          (let paragraphs = ctx_paragraphs context;
               current_paragraph = ctx_current_paragraph context;
               max_paragraphs = md_max_paragraphs metadata;
               messages = md_messages metadata;
               story_context_text = join [10] (str_lists w paragraphs);
               custom_prompt =
                 custom_prompt story_context_text custom_text current_paragraph max_paragraphs;
               w1 = msg_append messages \<lparr>msg_role = User, msg_content = custom_prompt\<rparr> w;
               sent = msg_lists w1 messages
           in case reply of
                Inl e \<Rightarrow> \<lparr>result = Inl e, store = w1, calls = [sent]\<rparr>
              | Inr response_text \<Rightarrow>
                  (let (paragraph_text, choices, title) =
                         parse_paragraph_and_choices response_text;
                       w2 = str_append paragraphs paragraph_text w1;
                       context = context
                         \<lparr>ctx_current_paragraph := ctx_current_paragraph context + 1\<rparr>;
                       context = context\<lparr>ctx_paragraphs := paragraphs\<rparr>;
                       is_complete = (current_paragraph \<ge> max_paragraphs - 1);
                       metadata =
                         (if is_complete \<and> truthy title
                          then metadata\<lparr>md_title := title\<rparr> else metadata);
                       w3 = msg_append messages
                              \<lparr>msg_role = Assistant, msg_content = response_text\<rparr> w2;
                       metadata = metadata\<lparr>md_messages := messages\<rparr>;
                       w4 = w3\<lparr>stories_context := (stories_context w3)(story_id \<mapsto> context),
                               stories_metadata :=
                                 (stories_metadata w3)(story_id \<mapsto> metadata)\<rparr>;
                       paragraph =
                         \<lparr>par_content = paragraph_text,
                          par_choices = (if is_complete then None else choices)\<rparr>;
                       story_response =
                         \<lparr>resp_story_id = story_id, resp_paragraph = paragraph,
                          resp_is_complete = is_complete,
                          resp_title = (if is_complete then md_title metadata else None)\<rparr>
                   in \<lparr>result = Inr story_response, store = w4, calls = [sent]\<rparr>))
      | _ \<Rightarrow> \<lparr>result = Inl invalid_story_id, store = w, calls = []\<rparr>)"

text \<open>
  \<^verbatim>\<open>get_complete_story\<close>; a story id without metadata gets the empty dictionary, which has
  no title.
\<close>

definition get_complete_story :: "world \<Rightarrow> pystr \<Rightarrow> exn + pystr" where
  "get_complete_story w story_id =
     (case stories_context w story_id of
        None \<Rightarrow> Inl invalid_story_id
      | Some context \<Rightarrow>
          (let story_text = join [10, 10] (str_lists w (ctx_paragraphs context))
           in case stories_metadata w story_id of
                None \<Rightarrow> Inr story_text
              | Some metadata \<Rightarrow>
                  (case md_title metadata of
                     None \<Rightarrow> Inr story_text
                   | Some the_title \<Rightarrow>
                       if the_title = [] then Inr story_text
                       else Inr (concat
                             [[1602, 1589, 1577, 32, 1576, 1593, 1606, 1608, 1575, 1606, 32] @
                                the_title @ asc ''.'' @ [10],
                              [10],
                              story_text]))))"

text \<open>
  \<^verbatim>\<open>generate_title_if_missing\<close>: the test \<^verbatim>\<open>if metadata.get("title")\<close> is one of truth, so a
  stored empty title counts as missing.
\<close>

definition generate_title_if_missing :: "exn + pystr \<Rightarrow> world \<Rightarrow> pystr \<Rightarrow> pystr outcome" where
  "generate_title_if_missing reply w story_id =
     (case stories_metadata w story_id of
        None \<Rightarrow> \<lparr>result = Inl invalid_story_id, store = w, calls = []\<rparr>
      | Some metadata \<Rightarrow>
          (let generate =
             (case get_complete_story w story_id of
                Inl e \<Rightarrow> \<lparr>result = Inl e, store = w, calls = []\<rparr>
              | Inr complete_story \<Rightarrow>
                  (let system_prompt = get_system_prompt;
                       title_prompt = create_title_prompt complete_story;
                       messages = [\<lparr>msg_role = System, msg_content = system_prompt\<rparr>,
                                   \<lparr>msg_role = User, msg_content = title_prompt\<rparr>]
                   in case reply of
                        Inl e \<Rightarrow> \<lparr>result = Inl e, store = w, calls = [messages]\<rparr>
                      | Inr title \<Rightarrow>
                          (let title = strip (replace title_marker [] (strip title));
                               metadata = metadata\<lparr>md_title := Some title\<rparr>;
                               w1 = w\<lparr>stories_metadata :=
                                        (stories_metadata w)(story_id \<mapsto> metadata)\<rparr>
                           in \<lparr>result = Inr title, store = w1, calls = [messages]\<rparr>)))
           in case md_title metadata of
                None \<Rightarrow> generate
              | Some stored \<Rightarrow>
                  if stored \<noteq> [] then \<lparr>result = Inr stored, store = w, calls = []\<rparr>
                  else generate))"

text \<open>
  The new-title pattern of \<^verbatim>\<open>edit_story\<close> at one position: the marker, all the whitespace
  that follows (newlines too), then the lazy group of characters other than the newline, up
  to a newline, which is consumed, or to \<^verbatim>\<open>$\<close>. \<^verbatim>\<open>re.IGNORECASE\<close> changes nothing, since no
  character of the marker has a case. The value is \<^verbatim>\<open>group(1)\<close> and the text after the match.
\<close>

definition new_title_re :: "pystr \<Rightarrow> (pystr \<times> pystr) option" where
  "new_title_re t =
     (if startswith new_title_marker t then
        (case lazy_until dot_no_newline (\<lambda>u. startswith [10] u \<or> at_end u)
                (dropWhile isspace (drop (length new_title_marker) t)) of
           None \<Rightarrow> None
         | Some (g, r) \<Rightarrow> Some (g, if startswith [10] r then drop 1 r else r))
      else None)"

text \<open>\<^verbatim>\<open>re.sub\<close> of that pattern by the empty string: every match is cut out.\<close>

function sub_new_title :: "pystr \<Rightarrow> pystr" where
  "sub_new_title s =
     (case new_title_re s of
        Some (g, r) \<Rightarrow> sub_new_title r
      | None \<Rightarrow> (case s of [] \<Rightarrow> [] | c # s' \<Rightarrow> c # sub_new_title s'))"
  by pat_completeness auto
termination
proof (relation "measure length")
  show "wf (measure length)"
    by simp
next
  fix s :: pystr and x2 g r
  assume m: "new_title_re s = Some x2" and x2: "(g, r) = x2"
  have suffix: "length r' \<le> length u"
    if "lazy_until dot stop u = Some (g', r')" for dot stop u g' and r' :: pystr
    using that by (induction u arbitrary: g') (auto split: if_splits)
  from m x2 obtain r' where st: "startswith new_title_marker s"
    and l: "lazy_until dot_no_newline (\<lambda>u. startswith [10] u \<or> at_end u)
              (dropWhile isspace (drop (length new_title_marker) s)) = Some (g, r')"
    and r: "r = (if startswith [10] r' then drop 1 r' else r')"
    by (auto simp: new_title_re_def split: if_splits option.splits)
  from st have "length (take (length new_title_marker) s) = length new_title_marker"
    by (simp add: startswith_def)
  then have "length new_title_marker \<le> length s"
    by (simp add: min_def split: if_splits)
  moreover have "0 < length new_title_marker"
    by (simp add: new_title_marker_def)
  ultimately have "length (drop (length new_title_marker) s) < length s"
    unfolding length_drop by arith
  moreover have "length (dropWhile isspace (drop (length new_title_marker) s))
      \<le> length (drop (length new_title_marker) s)"
    by (rule length_dropWhile_le)
  moreover from r have "length r \<le> length r'"
    by (simp split: if_splits)
  ultimately show "(r, s) \<in> measure length"
    using suffix [OF l] by simp
next
  fix s :: pystr and c s'
  assume "new_title_re s = None" "s = c # s'"
  then show "(s', s) \<in> measure length"
    by simp
qed

declare sub_new_title.simps [simp del]

text \<open>The two prompts that \<^verbatim>\<open>edit_story\<close> builds in place (lines 465 to 477).\<close>

definition edit_system_prompt :: pystr where
  "edit_system_prompt =
     concat
     [[1571, 1606, 1578, 32, 1605, 1587, 1575, 1593, 1583, 32, 1584, 1603, 1610, 32, 1605,
         1578, 1582, 1589, 1589, 32, 1601, 1610, 32, 1578, 1581, 1585, 1610, 1585, 32, 1608,
         1578, 1593, 1583, 1610, 1604, 32, 1575, 1604, 1602, 1589, 1589, 32, 1575, 1604, 1593,
         1585, 1576, 1610, 1577] @
        asc ''. '' @
        [1605, 1607, 1605, 1578, 1603, 32, 1607, 1610, 32, 1578, 1593, 1583, 1610, 1604, 32,
         1575, 1604, 1602, 1589, 1577, 32, 1576, 1606, 1575, 1569, 1611, 32, 1593, 1604, 1609,
         32, 1578, 1593, 1604, 1610, 1605, 1575, 1578, 32, 1575, 1604, 1605, 1587, 1578, 1582,
         1583, 1605, 32, 1605, 1593, 32, 1575, 1604, 1581, 1601, 1575, 1592, 32, 1593, 1604,
         1609, 32, 1575, 1604, 1571, 1587, 1604, 1608, 1576, 32, 1608, 1575, 1604, 1606, 1576,
         1585, 1577, 32, 1575, 1604, 1571, 1589, 1604, 1610, 1577] @
        asc ''. '' @ [10],
      [1602, 1605, 32, 1576, 1573, 1585, 1580, 1575, 1593, 32, 1575, 1604, 1602, 1589, 1577,
         32, 1575, 1604, 1605, 1593, 1583, 1604, 1577, 32, 1576, 1575, 1604, 1603, 1575, 1605,
         1604, 32, 1608, 1604, 1610, 1587, 32, 1601, 1602, 1591, 32, 1575, 1604, 1571, 1580,
         1586, 1575, 1569, 32, 1575, 1604, 1605, 1593, 1583, 1604, 1577] @
        asc ''. '' @
        [1578, 1571, 1603, 1583, 32, 1605, 1606, 32, 1578, 1602, 1587, 1610, 1605, 32, 1575,
         1604, 1602, 1589, 1577, 32, 1573, 1604, 1609, 32, 1601, 1602, 1585, 1575, 1578, 32,
         1608, 1575, 1590, 1581, 1577, 32, 1603, 1605, 1575, 32, 1601, 1610, 32, 1575, 1604,
         1606, 1589, 32, 1575, 1604, 1571, 1589, 1604, 1610] @
        asc ''.'' @ [10],
      [1573, 1584, 1575, 32, 1578, 1591, 1604, 1576, 1578, 32, 1575, 1604, 1578, 1593, 1604,
         1610, 1605, 1575, 1578, 32, 1578, 1594, 1610, 1610, 1585, 32, 1575, 1604, 1593, 1606,
         1608, 1575, 1606, 1548, 32, 1602, 1605, 32, 1576, 1573, 1590, 1575, 1601, 1577, 32,
         1587, 1591, 1585, 32, 34, 1575, 1604, 1593, 1606, 1608, 1575, 1606, 32, 1575, 1604,
         1580, 1583, 1610, 1583] @
        asc '': <'' @
        [1575, 1604, 1593, 1606, 1608, 1575, 1606, 32, 1575, 1604, 1605, 1593, 1583, 1604] @
        asc ''>'' @
        [34, 32, 1601, 1610, 32, 1576, 1583, 1575, 1610, 1577, 32, 1575, 1587, 1578, 1580,
         1575, 1576, 1578, 1603] @
        asc ''.'']"

definition edit_user_prompt :: "pystr \<Rightarrow> pystr \<Rightarrow> pystr" where
  "edit_user_prompt complete_story edit_instructions =
     concat
     [[1601, 1610, 1605, 1575, 32, 1610, 1604, 1610, 32, 1602, 1589, 1577, 32, 1603, 1575,
         1605, 1604, 1577] @
        asc '':'' @ [10],
      asc ''    '' @ [10],
      complete_story @ [10],
      [10],
      [1578, 1593, 1604, 1610, 1605, 1575, 1578, 32, 1575, 1604, 1578, 1593, 1583, 1610,
         1604] @
        asc '':'' @ [10],
      edit_instructions @ [10],
      [10],
      [1602, 1605, 32, 1576, 1578, 1593, 1583, 1610, 1604, 32, 1575, 1604, 1602, 1589, 1577,
         32, 1608, 1601, 1602, 1611, 1575, 32, 1604, 1604, 1578, 1593, 1604, 1610, 1605, 1575,
         1578, 32, 1575, 1604, 1605, 1584, 1603, 1608, 1585, 1577, 32, 1571, 1593, 1604, 1575,
         1607, 32, 1608, 1571, 1585, 1580, 1593, 32, 1575, 1604, 1602, 1589, 1577, 32, 1575,
         1604, 1605, 1593, 1583, 1604, 1577, 32, 1576, 1575, 1604, 1603, 1575, 1605, 1604, 32,
         1605, 1602, 1587, 1605, 1577, 32, 1573, 1604, 1609, 32, 1601, 1602, 1585, 1575, 1578] @
        asc ''.'' @ [10]]"

text \<open>The dictionary that \<^verbatim>\<open>edit_story\<close> returns.\<close>

record edit_result =
  edit_paragraphs :: "pystr list"
  edit_title :: "pystr option"

definition edit_story :: "exn + pystr \<Rightarrow> world \<Rightarrow> pystr \<Rightarrow> pystr \<Rightarrow> edit_result outcome" where
  "edit_story reply w story_id edit_instructions =
     (case (stories_context w story_id, stories_metadata w story_id) of
        (Some context, Some metadata) \<Rightarrow>
          (let paragraphs = ctx_paragraphs context;
               complete_story = join [10] (str_lists w paragraphs);
               system_prompt = edit_system_prompt;
               user_prompt = edit_user_prompt complete_story edit_instructions;
               messages = [\<lparr>msg_role = System, msg_content = system_prompt\<rparr>,
                           \<lparr>msg_role = User, msg_content = user_prompt\<rparr>]
           in case reply of
                Inl e \<Rightarrow> \<lparr>result = Inl e, store = w, calls = [messages]\<rparr>
              | Inr response_text \<Rightarrow>
                  (let title_match = re_search new_title_re response_text;
                       new_title =
                         (case title_match of None \<Rightarrow> None | Some (g, r) \<Rightarrow> Some (strip g));
                       response_text =
                         (case title_match of
                            None \<Rightarrow> response_text
                          | Some m \<Rightarrow> sub_new_title response_text);
                       edited_paragraphs =
                         map strip (filter (\<lambda>p. strip p \<noteq> []) (split_blank response_text));
                       (edited, w1) = new_str_list edited_paragraphs w;
                       w2 = w1\<lparr>stories_context :=
                               (stories_context w1)(story_id \<mapsto> context\<lparr>ctx_paragraphs := edited\<rparr>)\<rparr>;
                       w3 = (if truthy new_title
                             then w2\<lparr>stories_metadata :=
                                    (stories_metadata w2)(story_id \<mapsto> metadata\<lparr>md_title := new_title\<rparr>)\<rparr>
                             else w2)
                   in \<lparr>result = Inr \<lparr>edit_paragraphs = edited_paragraphs,
                                       edit_title =
                                         (if truthy new_title then new_title
                                          else md_title metadata)\<rparr>,
                       store = w3, calls = [messages]\<rparr>))
      | _ \<Rightarrow> \<lparr>result = Inl invalid_story_id, store = w, calls = []\<rparr>)"

section \<open>The lifetime of the store\<close>

text \<open>
  The public operations, each with the reply of its model call. \<^verbatim>\<open>uuid.uuid4()\<close> gives
  \<^verbatim>\<open>initialize_story\<close> an identifier that no stored session has.
\<close>

datatype operation =
    Initialize pystr StoryConfig
  | Advance_by_choice pystr int
  | Advance_by_text pystr pystr
  | Finalize_title pystr
  | Edit pystr pystr

fun apply_operation :: "operation \<Rightarrow> exn + pystr \<Rightarrow> world \<Rightarrow> world" where
  "apply_operation (Initialize story_id config) reply w =
     store (initialize_story story_id reply w config)"
| "apply_operation (Advance_by_choice story_id choice_id) reply w =
     store (continue_story reply w story_id choice_id)"
| "apply_operation (Advance_by_text story_id custom_text) reply w =
     store (continue_story_with_text reply w story_id custom_text)"
| "apply_operation (Finalize_title story_id) reply w =
     store (generate_title_if_missing reply w story_id)"
| "apply_operation (Edit story_id edit_instructions) reply w =
     store (edit_story reply w story_id edit_instructions)"

fun fresh :: "operation \<Rightarrow> world \<Rightarrow> bool" where
  "fresh (Initialize story_id config) w \<longleftrightarrow>
     stories_context w story_id = None \<and> stories_metadata w story_id = None"
| "fresh other w \<longleftrightarrow> True"

fun is_edit :: "operation \<Rightarrow> bool" where
  "is_edit (Edit story_id edit_instructions) = True"
| "is_edit other = False"

text \<open>
  The stores that the operations in \<open>allowed\<close> can produce from the empty store, whatever the
  model replies.
\<close>

inductive reachable :: "(operation \<Rightarrow> bool) \<Rightarrow> world \<Rightarrow> bool" for allowed where
  start: "reachable allowed empty_world"
| step: "reachable allowed w \<Longrightarrow> allowed op \<Longrightarrow> fresh op w
           \<Longrightarrow> reachable allowed (apply_operation op reply w)"

section \<open>Example inputs\<close>

text \<open>
  A story id, a configuration of a short story, and model replies in the format the prompts
  ask for: the first is the example of the specification.
\<close>

definition example_id :: pystr where
  "example_id = asc ''story-1''"

definition example_config :: StoryConfig where
  "example_config =
     \<lparr>cfg_length = SHORT, cfg_primary_type = ADVENTURE, cfg_secondary_type = NONE,
      cfg_characters = []\<rparr>"

definition first_reply :: pystr where
  "first_reply =
     paragraph_marker @ asc '' A'' @ [10] @ choices_marker @ [10] @ asc ''1. X'' @ [10] @
     asc ''2. Y'' @ [10] @ asc ''3. Z''"

text \<open>A reply whose first numbered choice is empty.\<close>

definition gap_reply :: pystr where
  "gap_reply =
     paragraph_marker @ asc '' A'' @ [10] @ choices_marker @ [10] @ asc ''1.'' @ [10] @
     asc ''2. go'' @ [10] @ asc ''3. stay''"

definition second_reply :: pystr where
  "second_reply =
     paragraph_marker @ asc '' B'' @ [10] @ choices_marker @ [10] @ asc ''1. P'' @ [10] @
     asc ''2. Q''"

definition final_reply :: pystr where
  "final_reply = paragraph_marker @ asc '' C'' @ [10] @ title_marker @ asc '' T''"

text \<open>The store after \<^verbatim>\<open>initialize_story\<close> with the first reply, and with the other.\<close>

definition started_world :: world where
  "started_world =
     apply_operation (Initialize example_id example_config) (Inr first_reply) empty_world"

definition gap_world :: world where
  "gap_world =
     apply_operation (Initialize example_id example_config) (Inr gap_reply) empty_world"

text \<open>An exception of the model call.\<close>

definition example_failure :: exn where
  "example_failure = http_error (asc ''connection refused'')"

text \<open>An endpoint that answers every request with status 200 and an empty JSON object.\<close>

definition malformed_endpoint :: "nat \<Rightarrow> http_result" where
  "malformed_endpoint attempt = Response 200 (asc ''{}'') (JsonObject None)"

definition example_key :: "pystr option" where
  "example_key = Some (asc ''sk-1'')"

text \<open>
  The store after a title request that the model answers with a title, and after one that
  it answers with the bare title marker.
\<close>

definition titled_world :: world where
  "titled_world = apply_operation (Finalize_title example_id) (Inr (asc ''The Cave'')) started_world"

definition empty_titled_world :: world where
  "empty_titled_world = apply_operation (Finalize_title example_id) (Inr title_marker) started_world"

text \<open>An edited story of two paragraphs under a new title, and the store after that edit.\<close>

definition edit_reply :: pystr where
  "edit_reply =
     new_title_marker @ asc '' New'' @ [10, 10] @ asc ''One'' @ [10, 10] @ asc ''Two''"

definition edited_world :: world where
  "edited_world =
     apply_operation (Edit example_id (asc ''split it'')) (Inr edit_reply) started_world"

text \<open>The sets of operations that a run may use: all of them, or all but the edit.\<close>

fun any_operation :: "operation \<Rightarrow> bool" where
  "any_operation op \<longleftrightarrow> True"

fun not_edit :: "operation \<Rightarrow> bool" where
  "not_edit op \<longleftrightarrow> \<not> is_edit op"

text \<open>The stores of the short story after the first and after the second advance.\<close>

definition advanced_world :: world where
  "advanced_world =
     apply_operation (Advance_by_choice example_id 1) (Inr second_reply) started_world"

definition completed_world :: world where
  "completed_world =
     apply_operation (Advance_by_choice example_id 2) (Inr final_reply) advanced_world"

section \<open>Properties of the response parser\<close>

lemma search_to_end_None: "\<not> contains m s \<Longrightarrow> re_search (to_end_re m) s = None"
  by (induction s) (auto simp: to_end_re_def)

lemma search_paragraph_None:
  "\<not> contains paragraph_marker s \<Longrightarrow> re_search paragraph_re s = None"
  by (induction s) (auto simp: paragraph_re_def)

text \<open>
  Claim C6. \<open>parse_paragraph_and_choices\<close> returns a triple of paragraph, choices and title
  for every input: the model has no branch that raises, and the search for the numbered
  choices terminates. When the input holds none of the three markers, the paragraph is the
  whole input stripped of surrounding whitespace, and there are neither choices nor a title.
\<close>

theorem parse_fallback:
  "(\<exists>paragraph choices title. parse_paragraph_and_choices s = (paragraph, choices, title)) \<and>
   (\<not> contains paragraph_marker s \<and> \<not> contains choices_marker s \<and> \<not> contains title_marker s
      \<longrightarrow> parse_paragraph_and_choices s = (strip s, None, None))"
  by (simp add: parse_paragraph_and_choices_def Let_def search_to_end_None search_paragraph_None)

theorem parse_fallback_witness:
  "\<not> contains paragraph_marker (asc ''  once upon a time '') \<and>
   \<not> contains choices_marker (asc ''  once upon a time '') \<and>
   \<not> contains title_marker (asc ''  once upon a time '') \<and>
   parse_paragraph_and_choices (asc ''  once upon a time '') =
     (asc ''once upon a time'', None, None)"
proof -
  have h: "\<not> contains paragraph_marker (asc ''  once upon a time '') \<and>
      \<not> contains choices_marker (asc ''  once upon a time '') \<and>
      \<not> contains title_marker (asc ''  once upon a time '')"
    by code_simp
  have s: "strip (asc ''  once upon a time '') = asc ''once upon a time''"
    by code_simp
  show ?thesis
    using h s parse_fallback [of "asc ''  once upon a time ''"] by simp
qed

text \<open>
  The line-based fallback numbers the lines after it has dropped the blank ones, so its ids
  are 1, 2, ... without a gap.
\<close>

lemma filter_enumerate_le:
  "filter (\<lambda>(i, x). i \<le> k) (enumerate n xs) = enumerate n (take (Suc k - n) xs)"
proof (induction xs arbitrary: n)
  case Nil
  show ?case by simp
next
  case (Cons x xs)
  show ?case
  proof (cases "n \<le> k")
    case True
    then have "Suc k - n = Suc (k - n)" by simp
    with True Cons [of "Suc n"] show ?thesis by simp
  next
    case False
    then have "filter (\<lambda>(i, x). i \<le> k) (enumerate (Suc n) xs) = []"
      by (auto simp: filter_empty_conv in_set_enumerate_eq)
    with False show ?thesis by simp
  qed
qed

lemma line_choices_ids:
  "map id_choice (line_choices t) = map int [1..<Suc (length (line_choices t))]"
proof -
  define ls where "ls = take 3 (filter (\<lambda>l. strip l \<noteq> []) (split_nl t))"
  have "line_choices t =
      map (\<lambda>(i, line). \<lparr>id_choice = int i, text_choice = strip (sub_numbering line)\<rparr>)
        (enumerate 1 ls)"
    by (simp add: line_choices_def filter_enumerate_le ls_def)
  then have "map id_choice (line_choices t) = map (int \<circ> fst) (enumerate 1 ls)"
    and "length (line_choices t) = length ls"
    by (simp_all add: case_prod_unfold comp_def)
  then show ?thesis
    by (simp flip: map_map)
qed

text \<open>
  Claim C7. The ids of the returned choices are 1, 2, ... in order. The numbered extraction
  does not keep this: it numbers the matches before it drops the empty ones. For the reply
  \<open>gap_reply\<close>, whose first numbered entry is empty, the first choice returned has id 2.
\<close>

theorem numbered_choices_gap:
  "parse_paragraph_and_choices gap_reply =
     (asc ''A'',
      Some [\<lparr>id_choice = 2, text_choice = asc ''go''\<rparr>,
            \<lparr>id_choice = 3, text_choice = asc ''stay''\<rparr>],
      None)"
  by code_simp

section \<open>The example inputs, evaluated\<close>

lemma parse_first_reply:
  "parse_paragraph_and_choices first_reply =
     (asc ''A'',
      Some [\<lparr>id_choice = 1, text_choice = asc ''X''\<rparr>, \<lparr>id_choice = 2, text_choice = asc ''Y''\<rparr>,
            \<lparr>id_choice = 3, text_choice = asc ''Z''\<rparr>],
      None)"
  by code_simp

lemma parse_gap_reply:
  "parse_paragraph_and_choices gap_reply =
     (asc ''A'',
      Some [\<lparr>id_choice = 2, text_choice = asc ''go''\<rparr>,
            \<lparr>id_choice = 3, text_choice = asc ''stay''\<rparr>],
      None)"
  by code_simp

lemma parse_second_reply:
  "parse_paragraph_and_choices second_reply =
     (asc ''B'',
      Some [\<lparr>id_choice = 1, text_choice = asc ''P''\<rparr>, \<lparr>id_choice = 2, text_choice = asc ''Q''\<rparr>],
      None)"
  by code_simp

lemma parse_final_reply:
  "parse_paragraph_and_choices final_reply = (asc ''C'', None, Some (asc ''T''))"
  by code_simp

lemma clean_title: "strip (replace title_marker [] (strip (asc ''The Cave''))) = asc ''The Cave''"
  by code_simp

lemma clean_bare_marker: "strip (replace title_marker [] (strip title_marker)) = []"
  by code_simp

lemma search_edit_reply:
  "re_search new_title_re edit_reply =
     Some (asc ''New'', [10] @ asc ''One'' @ [10, 10] @ asc ''Two'')"
  by code_simp

lemma split_edit_reply:
  "map strip (filter (\<lambda>p. strip p \<noteq> []) (split_blank (sub_new_title edit_reply))) =
     [asc ''One'', asc ''Two'']"
  by code_simp

lemma strip_new: "strip (asc ''New'') = asc ''New''"
  by code_simp

lemma asc_Cons_neq_Nil: "asc (c # s) \<noteq> []"
  by (simp add: asc_def)

text \<open>The store after the first operation on the empty store.\<close>

lemma initialized_world:
  assumes "parse_paragraph_and_choices response_text = (paragraph_text, choices, title)"
  shows "apply_operation (Initialize story_id config) (Inr response_text) empty_world =
     \<lparr>stories_context =
        [story_id \<mapsto> \<lparr>ctx_paragraphs = 0, ctx_current_paragraph = 1\<rparr>],
      stories_metadata =
        [story_id \<mapsto>
           \<lparr>md_config = config,
            md_max_paragraphs = info_paragraphs (get_story_length_instructions (cfg_length config)),
            md_messages = Suc 0, md_title = None\<rparr>],
      str_lists = (\<lambda>r. [])(0 := [paragraph_text]),
      msg_lists = (\<lambda>r. [])(Suc 0 :=
        [\<lparr>msg_role = System, msg_content = get_system_prompt\<rparr>,
         \<lparr>msg_role = User, msg_content = create_story_init_prompt config\<rparr>,
         \<lparr>msg_role = Assistant, msg_content = response_text\<rparr>]),
      next_ref = Suc (Suc 0)\<rparr>"
  using assms
  by (simp add: initialize_story_def Let_def new_str_list_def new_msg_list_def empty_world_def)

lemmas started_world_eq =
  initialized_world [OF parse_first_reply, of example_id example_config, folded started_world_def]

lemmas gap_world_eq =
  initialized_world [OF parse_gap_reply, of example_id example_config, folded gap_world_def]

lemma started_context:
  "stories_context started_world example_id =
     Some \<lparr>ctx_paragraphs = 0, ctx_current_paragraph = 1\<rparr>"
  by (simp add: started_world_eq)

lemma started_metadata:
  "stories_metadata started_world example_id =
     Some \<lparr>md_config = example_config, md_max_paragraphs = 3, md_messages = Suc 0,
           md_title = None\<rparr>"
  by (simp add: started_world_eq example_config_def)

lemma started_messages:
  "msg_lists started_world (Suc 0) =
     [\<lparr>msg_role = System, msg_content = get_system_prompt\<rparr>,
      \<lparr>msg_role = User, msg_content = create_story_init_prompt example_config\<rparr>,
      \<lparr>msg_role = Assistant, msg_content = first_reply\<rparr>]"
  by (simp add: started_world_eq)

lemma started_session:
  "session started_world example_id =
     Some \<lparr>view_paragraphs = [asc ''A''], view_current_paragraph = 1, view_max_paragraphs = 3,
           view_messages =
             [\<lparr>msg_role = System, msg_content = get_system_prompt\<rparr>,
              \<lparr>msg_role = User, msg_content = create_story_init_prompt example_config\<rparr>,
              \<lparr>msg_role = Assistant, msg_content = first_reply\<rparr>],
           view_title = None\<rparr>"
  by (simp add: started_world_eq session_def example_config_def)

lemma gap_context:
  "stories_context gap_world example_id = Some \<lparr>ctx_paragraphs = 0, ctx_current_paragraph = 1\<rparr>"
  by (simp add: gap_world_eq)

lemma gap_metadata:
  "stories_metadata gap_world example_id =
     Some \<lparr>md_config = example_config, md_max_paragraphs = 3, md_messages = Suc 0,
           md_title = None\<rparr>"
  by (simp add: gap_world_eq example_config_def)

lemma gap_messages:
  "msg_lists gap_world (Suc 0) =
     [\<lparr>msg_role = System, msg_content = get_system_prompt\<rparr>,
      \<lparr>msg_role = User, msg_content = create_story_init_prompt example_config\<rparr>,
      \<lparr>msg_role = Assistant, msg_content = gap_reply\<rparr>]"
  by (simp add: gap_world_eq)

text \<open>The short story, advanced twice by choice.\<close>

lemma advanced_world_eq:
  "advanced_world =
     \<lparr>stories_context = [example_id \<mapsto> \<lparr>ctx_paragraphs = 0, ctx_current_paragraph = 2\<rparr>],
      stories_metadata =
        [example_id \<mapsto>
           \<lparr>md_config = example_config, md_max_paragraphs = 3, md_messages = Suc 0,
            md_title = None\<rparr>],
      str_lists = (\<lambda>r. [])(0 := [asc ''A'', asc ''B'']),
      msg_lists = (\<lambda>r. [])(Suc 0 :=
        [\<lparr>msg_role = System, msg_content = get_system_prompt\<rparr>,
         \<lparr>msg_role = User, msg_content = create_story_init_prompt example_config\<rparr>,
         \<lparr>msg_role = Assistant, msg_content = first_reply\<rparr>,
         \<lparr>msg_role = User,
          msg_content = create_continuation_prompt (asc ''A'') 1 (asc ''X'') 1 3\<rparr>,
         \<lparr>msg_role = Assistant, msg_content = second_reply\<rparr>]),
      next_ref = Suc (Suc 0)\<rparr>"
  by (simp add: advanced_world_def continue_story_def Let_def msg_append_def str_append_def
      started_world_eq parse_first_reply parse_second_reply example_config_def)

lemma advanced_result:
  "result (continue_story (Inr second_reply) started_world example_id 1) =
     Inr \<lparr>resp_story_id = example_id,
          resp_paragraph = \<lparr>par_content = asc ''B'',
            par_choices = Some [\<lparr>id_choice = 1, text_choice = asc ''P''\<rparr>,
                                \<lparr>id_choice = 2, text_choice = asc ''Q''\<rparr>]\<rparr>,
          resp_is_complete = False, resp_title = None\<rparr>"
  by (simp add: continue_story_def Let_def msg_append_def str_append_def
      started_world_eq parse_first_reply parse_second_reply example_config_def)

lemma completed_session:
  "session completed_world example_id =
     Some \<lparr>view_paragraphs = [asc ''A'', asc ''B'', asc ''C''], view_current_paragraph = 3,
           view_max_paragraphs = 3,
           view_messages =
             [\<lparr>msg_role = System, msg_content = get_system_prompt\<rparr>,
              \<lparr>msg_role = User, msg_content = create_story_init_prompt example_config\<rparr>,
              \<lparr>msg_role = Assistant, msg_content = first_reply\<rparr>,
              \<lparr>msg_role = User,
               msg_content = create_continuation_prompt (asc ''A'') 1 (asc ''X'') 1 3\<rparr>,
              \<lparr>msg_role = Assistant, msg_content = second_reply\<rparr>,
              \<lparr>msg_role = User,
               msg_content =
                 create_continuation_prompt (asc ''A'' @ [10] @ asc ''B'') 2 (asc ''Q'') 2 3\<rparr>,
              \<lparr>msg_role = Assistant, msg_content = final_reply\<rparr>],
           view_title = Some (asc ''T'')\<rparr>"
  by (simp add: completed_world_def continue_story_def Let_def msg_append_def str_append_def
      session_def advanced_world_eq parse_second_reply parse_final_reply asc_Cons_neq_Nil)

lemma completed_result:
  "result (continue_story (Inr final_reply) advanced_world example_id 2) =
     Inr \<lparr>resp_story_id = example_id,
          resp_paragraph = \<lparr>par_content = asc ''C'', par_choices = None\<rparr>,
          resp_is_complete = True, resp_title = Some (asc ''T'')\<rparr>"
  by (simp add: continue_story_def Let_def msg_append_def str_append_def
      advanced_world_eq parse_second_reply parse_final_reply asc_Cons_neq_Nil)

text \<open>The two title requests on the started story.\<close>

lemma titled_world_eq:
  "generate_title_if_missing (Inr (asc ''The Cave'')) started_world example_id =
     \<lparr>result = Inr (asc ''The Cave''), store = titled_world,
      calls = [[\<lparr>msg_role = System, msg_content = get_system_prompt\<rparr>,
                \<lparr>msg_role = User, msg_content = create_title_prompt (asc ''A'')\<rparr>]]\<rparr>"
  by (simp add: titled_world_def generate_title_if_missing_def get_complete_story_def Let_def
      started_world_eq clean_title)

lemma titled_metadata:
  "stories_metadata titled_world example_id =
     Some \<lparr>md_config = example_config, md_max_paragraphs = 3, md_messages = Suc 0,
           md_title = Some (asc ''The Cave'')\<rparr>"
  by (simp add: titled_world_def generate_title_if_missing_def get_complete_story_def Let_def
      started_world_eq clean_title example_config_def)

lemma empty_titled_result:
  "result (generate_title_if_missing (Inr title_marker) started_world example_id) = Inr []"
  by (simp add: generate_title_if_missing_def get_complete_story_def Let_def
      started_world_eq clean_bare_marker)

lemma empty_titled_world_eq:
  "empty_titled_world =
     \<lparr>stories_context = [example_id \<mapsto> \<lparr>ctx_paragraphs = 0, ctx_current_paragraph = 1\<rparr>],
      stories_metadata =
        [example_id \<mapsto>
           \<lparr>md_config = example_config, md_max_paragraphs = 3, md_messages = Suc 0,
            md_title = Some []\<rparr>],
      str_lists = (\<lambda>r. [])(0 := [asc ''A'']),
      msg_lists = (\<lambda>r. [])(Suc 0 :=
        [\<lparr>msg_role = System, msg_content = get_system_prompt\<rparr>,
         \<lparr>msg_role = User, msg_content = create_story_init_prompt example_config\<rparr>,
         \<lparr>msg_role = Assistant, msg_content = first_reply\<rparr>]),
      next_ref = Suc (Suc 0)\<rparr>"
  by (simp add: empty_titled_world_def generate_title_if_missing_def get_complete_story_def
      Let_def started_world_eq clean_bare_marker example_config_def)

section \<open>Properties of the model client\<close>

text \<open>
  One attempt that is answered with status 200 and a payload without choices: the loop
  records the wrapped exception, sleeps, and goes on with the next attempt.
\<close>

lemma malformed_step:
  assumes "malformed (post attempt)"
  shows "attempt_loop post messages backoff_factor attempt (Suc n) last_exception =
           (fst (attempt_loop post messages backoff_factor (Suc attempt) n
                   (Some (unexpected_error invalid_format_message))),
            Post messages # Sleep (backoff_factor * 2 ^ attempt) #
            snd (attempt_loop post messages backoff_factor (Suc attempt) n
                   (Some (unexpected_error invalid_format_message))))"
  using assms
  by (cases "post attempt" rule: malformed.cases) (simp_all add: Let_def split: prod.splits)

lemma all_malformed:
  assumes "\<forall>k. attempt \<le> k \<and> k < attempt + n \<longrightarrow> malformed (post k)"
  shows "attempt_loop post messages backoff_factor attempt n
           (Some (unexpected_error invalid_format_message)) =
           (Inl (unexpected_error invalid_format_message),
            concat (map (\<lambda>k. [Post messages, Sleep (backoff_factor * 2 ^ k)])
              [attempt..<attempt + n]))"
  using assms
proof (induction n arbitrary: attempt)
  case 0
  show ?case by simp
next
  case (Suc n)
  let ?rest = "attempt_loop post messages backoff_factor (Suc attempt) n
      (Some (unexpected_error invalid_format_message))"
  from Suc.prems have "malformed (post attempt)"
    by simp
  then have step: "attempt_loop post messages backoff_factor attempt (Suc n)
      (Some (unexpected_error invalid_format_message)) =
      (fst ?rest, Post messages # Sleep (backoff_factor * 2 ^ attempt) # snd ?rest)"
    by (rule malformed_step)
  have "\<forall>k. Suc attempt \<le> k \<and> k < Suc attempt + n \<longrightarrow> malformed (post k)"
    using Suc.prems by simp
  then have rest: "?rest = (Inl (unexpected_error invalid_format_message),
      concat (map (\<lambda>k. [Post messages, Sleep (backoff_factor * 2 ^ k)])
        [Suc attempt..<Suc attempt + n]))"
    by (rule Suc.IH)
  have upt: "[attempt..<attempt + Suc n] = attempt # [Suc attempt..<Suc attempt + n]"
    by (simp add: upt_conv_Cons)
  show ?case
    unfolding step rest upt by simp
qed

text \<open>
  Claim C2, as the code has it. A response with status 200 whose payload has no non-empty
  \<^verbatim>\<open>"choices"\<close> field is not a permanent failure. At any attempt the loop records the
  exception (wrapped as an unexpected error), makes its request, sleeps
  \<open>backoff_factor * 2 ^ attempt\<close> seconds and continues with the next attempt, one fewer
  left. When every attempt is answered so, \<open>generate_response\<close> makes all \<open>retries\<close> requests,
  sleeps after each, and only then raises the recorded exception.
\<close>

theorem malformed_response_retried:
  "(malformed (post attempt) \<longrightarrow>
      attempt_loop post messages backoff_factor attempt (Suc n) last_exception =
        (fst (attempt_loop post messages backoff_factor (Suc attempt) n
                (Some (unexpected_error invalid_format_message))),
         Post messages # Sleep (backoff_factor * 2 ^ attempt) #
         snd (attempt_loop post messages backoff_factor (Suc attempt) n
                (Some (unexpected_error invalid_format_message))))) \<and>
   (truthy DEEPSEEK_API_KEY \<and> 0 < retries \<and> (\<forall>k < retries. malformed (post k)) \<longrightarrow>
      generate_response DEEPSEEK_API_KEY post messages retries backoff_factor =
        (Inl (unexpected_error invalid_format_message),
         concat (map (\<lambda>k. [Post messages, Sleep (backoff_factor * 2 ^ k)]) [0..<retries])))"
proof (intro conjI impI)
  assume "malformed (post attempt)"
  then show "attempt_loop post messages backoff_factor attempt (Suc n) last_exception =
        (fst (attempt_loop post messages backoff_factor (Suc attempt) n
                (Some (unexpected_error invalid_format_message))),
         Post messages # Sleep (backoff_factor * 2 ^ attempt) #
         snd (attempt_loop post messages backoff_factor (Suc attempt) n
                (Some (unexpected_error invalid_format_message))))"
    by (rule malformed_step)
next
  assume a: "truthy DEEPSEEK_API_KEY \<and> 0 < retries \<and> (\<forall>k < retries. malformed (post k))"
  then obtain m where m: "retries = Suc m"
    by (cases retries) auto
  from a have key: "DEEPSEEK_API_KEY \<noteq> None \<and> DEEPSEEK_API_KEY \<noteq> Some []"
    by (cases DEEPSEEK_API_KEY) auto
  let ?rest = "attempt_loop post messages backoff_factor (Suc 0) m
      (Some (unexpected_error invalid_format_message))"
  from a m have first: "malformed (post 0)"
    and others: "\<forall>k. Suc 0 \<le> k \<and> k < Suc 0 + m \<longrightarrow> malformed (post k)"
    by auto
  from others have rest: "?rest = (Inl (unexpected_error invalid_format_message),
      concat (map (\<lambda>k. [Post messages, Sleep (backoff_factor * 2 ^ k)]) [Suc 0..<Suc 0 + m]))"
    by (rule all_malformed)
  have upt: "[0..<Suc m] = 0 # [Suc 0..<Suc 0 + m]"
    by (simp add: upt_conv_Cons)
  have "generate_response DEEPSEEK_API_KEY post messages retries backoff_factor =
      attempt_loop post messages backoff_factor 0 (Suc m) None"
    using key m by (auto simp add: generate_response_def simp del: attempt_loop.simps)
  also from first have "\<dots> =
      (fst ?rest, Post messages # Sleep (backoff_factor * 2 ^ 0) # snd ?rest)"
    by (rule malformed_step)
  also have "\<dots> = (Inl (unexpected_error invalid_format_message),
      concat (map (\<lambda>k. [Post messages, Sleep (backoff_factor * 2 ^ k)]) [0..<retries]))"
    unfolding rest m upt by simp
  finally show "generate_response DEEPSEEK_API_KEY post messages retries backoff_factor =
        (Inl (unexpected_error invalid_format_message),
         concat (map (\<lambda>k. [Post messages, Sleep (backoff_factor * 2 ^ k)]) [0..<retries]))" .
qed

theorem malformed_response_retried_witness:
  "malformed (malformed_endpoint 0) \<and> truthy example_key \<and>
   attempt_loop malformed_endpoint [] (3 / 2) 0 (Suc 0) None =
     (Inl (unexpected_error invalid_format_message), [Post [], Sleep (3 / 2)]) \<and>
   generate_response example_key malformed_endpoint [] 3 (3 / 2) =
     (Inl (unexpected_error invalid_format_message),
      [Post [], Sleep (3 / 2), Post [], Sleep 3, Post [], Sleep 6])"
proof -
  have h: "malformed (malformed_endpoint 0)" "truthy example_key"
    "\<forall>k<3. malformed (malformed_endpoint k)"
    by (simp_all add: malformed_endpoint_def example_key_def asc_def)
  have u: "[0..<3] = [0, 1, 2]"
    by (simp add: upt_conv_Cons)
  show ?thesis
    using h malformed_response_retried [of malformed_endpoint 0 "[]" "3 / 2" 0 None example_key 3]
    by (simp add: u)
qed

text \<open>
  Claim C2, as it is stated: on such a response \<open>generate_response\<close> raises at once, without
  a sleep and without a further request. Against the endpoint that always answers so, the
  default three attempts make three requests and sleep three times.
\<close>

theorem malformed_response_sleeps:
  "malformed (malformed_endpoint 0) \<and>
   requests (snd (generate_response example_key malformed_endpoint [] 3 (3 / 2))) = 3 \<and>
   sleeps (snd (generate_response example_key malformed_endpoint [] 3 (3 / 2))) = 3"
  by (simp add: generate_response_def example_key_def asc_def malformed_endpoint_def Let_def
      requests_def sleeps_def numeral_3_eq_3)

section \<open>Properties of the operations\<close>

lemma session_SomeD:
  assumes "session w story_id = Some v"
  obtains ctx md where "stories_context w story_id = Some ctx"
    and "stories_metadata w story_id = Some md"
    and "v = \<lparr>view_paragraphs = str_lists w (ctx_paragraphs ctx),
               view_current_paragraph = ctx_current_paragraph ctx,
               view_max_paragraphs = md_max_paragraphs md,
               view_messages = msg_lists w (md_messages md),
               view_title = md_title md\<rparr>"
  using assms by (auto simp: session_def split: option.splits)

subsection \<open>Choice validation\<close>

text \<open>
  Claim C5. For a stored session with a message history, let \<open>n\<close> be the number of choices
  parsed from the last stored message (0 when the parser finds none). Whenever the choice id
  is below 1 or above \<open>n\<close>, or \<open>n\<close> is 0, \<open>continue_story\<close> raises the invalid-choice error,
  leaves the store as it was and hands nothing to the model.
\<close>

theorem continue_story_invalid_choice:
  assumes "stories_context w story_id = Some context"
    and "stories_metadata w story_id = Some metadata"
    and "msg_lists w (md_messages metadata) \<noteq> []"
    and "parse_paragraph_and_choices (msg_content (last (msg_lists w (md_messages metadata))))
           = (paragraph, choices, title)"
    and "n = (case choices of None \<Rightarrow> 0 | Some cs \<Rightarrow> length cs)"
    and "choice_id < 1 \<or> choice_id > int n \<or> n = 0"
  shows "continue_story reply w story_id choice_id =
           \<lparr>result = Inl invalid_choice, store = w, calls = []\<rparr>"
  using assms by (auto simp: continue_story_def Let_def split: option.splits)

theorem continue_story_invalid_choice_witness:
  "continue_story (Inr second_reply) started_world example_id 4 =
     \<lparr>result = Inl invalid_choice, store = started_world, calls = []\<rparr>"
  using continue_story_invalid_choice [OF started_context started_metadata,
      where n = 3 and choice_id = 4 and reply = "Inr second_reply"]
  by (simp add: started_messages parse_first_reply)

text \<open>
  Claim C10. When the choice id passes the validation but no parsed choice carries it, the
  advance goes on: the model is called with the history and a continuation prompt whose
  chosen text is the empty string, and the result is whatever the model call gives, an
  exception of the call or a story response, not the invalid-choice error.
\<close>

theorem continue_story_unmatched_id:
  assumes "stories_context w story_id = Some context"
    and "stories_metadata w story_id = Some metadata"
    and "msg_lists w (md_messages metadata) \<noteq> []"
    and "parse_paragraph_and_choices (msg_content (last (msg_lists w (md_messages metadata))))
           = (paragraph, Some choices, title)"
    and "1 \<le> choice_id" and "choice_id \<le> int (length choices)"
    and "\<forall>c \<in> set choices. id_choice c \<noteq> choice_id"
  shows "calls (continue_story reply w story_id choice_id) =
           [msg_lists w (md_messages metadata) @
            [\<lparr>msg_role = User,
              msg_content =
                create_continuation_prompt (join [10] (str_lists w (ctx_paragraphs context)))
                  choice_id [] (ctx_current_paragraph context) (md_max_paragraphs metadata)\<rparr>]] \<and>
         (case reply of
            Inl e \<Rightarrow> result (continue_story reply w story_id choice_id) = Inl e
          | Inr response_text \<Rightarrow>
              \<exists>story_response.
                result (continue_story reply w story_id choice_id) = Inr story_response)"
proof -
  from assms(7) have "filter (\<lambda>c. id_choice c = choice_id) choices = []"
    by (simp add: filter_empty_conv)
  moreover from assms(5,6) have "choices \<noteq> []"
    by auto
  ultimately show ?thesis
    using assms(1-6)
    by (simp add: continue_story_def Let_def msg_append_def split: sum.splits prod.splits)
qed

theorem continue_story_unmatched_id_witness:
  "calls (continue_story (Inr second_reply) gap_world example_id 1) =
     [msg_lists gap_world (Suc 0) @
      [\<lparr>msg_role = User,
        msg_content =
          create_continuation_prompt (join [10] (str_lists gap_world 0)) 1 [] 1 3\<rparr>]] \<and>
   (\<exists>story_response.
      result (continue_story (Inr second_reply) gap_world example_id 1) = Inr story_response)"
  using continue_story_unmatched_id [OF gap_context gap_metadata, where choice_id = 1
      and reply = "Inr second_reply"]
  by (simp add: gap_messages parse_gap_reply)

subsection \<open>A failed model call\<close>

text \<open>
  What a failed model call leaves behind: the paragraphs, the index and the title are as
  before, and the message history has the prompt of the failed turn at its end.
\<close>

lemma failed_text_session:
  assumes "session w story_id = Some v"
  shows "result (continue_story_with_text (Inl e) w story_id custom_text) = Inl e \<and>
         session (store (continue_story_with_text (Inl e) w story_id custom_text)) story_id =
           Some (v\<lparr>view_messages := view_messages v @
             [\<lparr>msg_role = User,
               msg_content = custom_prompt (join [10] (view_paragraphs v)) custom_text
                 (view_current_paragraph v) (view_max_paragraphs v)\<rparr>]\<rparr>)"
proof -
  from assms obtain ctx md where "stories_context w story_id = Some ctx"
    and "stories_metadata w story_id = Some md"
    and "v = \<lparr>view_paragraphs = str_lists w (ctx_paragraphs ctx),
               view_current_paragraph = ctx_current_paragraph ctx,
               view_max_paragraphs = md_max_paragraphs md,
               view_messages = msg_lists w (md_messages md),
               view_title = md_title md\<rparr>"
    by (rule session_SomeD)
  then show ?thesis
    by (simp add: continue_story_with_text_def Let_def msg_append_def session_def)
qed

lemma failed_choice_session:
  assumes "session w story_id = Some v" and "view_messages v \<noteq> []"
    and "parse_paragraph_and_choices (msg_content (last (view_messages v))) =
           (paragraph, Some choices, title)"
    and "1 \<le> choice_id" and "choice_id \<le> int (length choices)"
  shows "result (continue_story (Inl e) w story_id choice_id) = Inl e \<and>
         session (store (continue_story (Inl e) w story_id choice_id)) story_id =
           Some (v\<lparr>view_messages := view_messages v @
             [\<lparr>msg_role = User,
               msg_content = create_continuation_prompt (join [10] (view_paragraphs v)) choice_id
                 (case filter (\<lambda>c. id_choice c = choice_id) choices of
                    [] \<Rightarrow> []
                  | c # cs \<Rightarrow> text_choice c)
                 (view_current_paragraph v) (view_max_paragraphs v)\<rparr>]\<rparr>)"
proof -
  from assms(1) obtain ctx md where "stories_context w story_id = Some ctx"
    and "stories_metadata w story_id = Some md"
    and "v = \<lparr>view_paragraphs = str_lists w (ctx_paragraphs ctx),
               view_current_paragraph = ctx_current_paragraph ctx,
               view_max_paragraphs = md_max_paragraphs md,
               view_messages = msg_lists w (md_messages md),
               view_title = md_title md\<rparr>"
    by (rule session_SomeD)
  moreover from assms(4,5) have "choices \<noteq> []"
    by auto
  ultimately show ?thesis
    using assms(2-5)
    by (simp add: continue_story_def Let_def msg_append_def session_def)
qed

text \<open>
  Claim C1. A failed model call leaves the stored session as it was before the operation.
  The code does not keep this for the message history: for the started example story, whose
  history has the three messages of \<open>initialize_story\<close>, an advance by choice 1 and an
  advance by free text whose model call raises both return the exception and leave a
  history of four messages, the last one the user prompt of the failed turn.
\<close>

theorem failed_advance_keeps_prompt:
  "map_option (map msg_role \<circ> view_messages) (session started_world example_id) =
     Some [System, User, Assistant] \<and>
   result (continue_story (Inl example_failure) started_world example_id 1) =
     Inl example_failure \<and>
   map_option (map msg_role \<circ> view_messages)
     (session (store (continue_story (Inl example_failure) started_world example_id 1))
        example_id) =
     Some [System, User, Assistant, User] \<and>
   result (continue_story_with_text (Inl example_failure) started_world example_id (asc ''run'')) =
     Inl example_failure \<and>
   map_option (map msg_role \<circ> view_messages)
     (session (store (continue_story_with_text (Inl example_failure) started_world example_id
        (asc ''run''))) example_id) =
     Some [System, User, Assistant, User]"
  using failed_choice_session [OF started_session, of "asc ''A''" _ None 1 example_failure]
    failed_text_session [OF started_session, of example_failure "asc ''run''"]
  by (simp add: started_session parse_first_reply)

subsection \<open>The short story\<close>

lemma initialize_story_store:
  "stories_context (store (initialize_story story_id (Inr response_text) w config)) story_id =
     Some \<lparr>ctx_paragraphs = next_ref w, ctx_current_paragraph = 1\<rparr> \<and>
   stories_metadata (store (initialize_story story_id (Inr response_text) w config)) story_id =
     Some \<lparr>md_config = config,
           md_max_paragraphs = info_paragraphs (get_story_length_instructions (cfg_length config)),
           md_messages = Suc (next_ref w), md_title = None\<rparr>"
  by (simp add: initialize_story_def Let_def new_str_list_def new_msg_list_def split: prod.splits)

lemma continue_story_success:
  assumes "stories_context w story_id = Some context"
    and "stories_metadata w story_id = Some metadata"
    and "result (continue_story reply w story_id choice_id) = Inr story_response"
  shows "stories_context (store (continue_story reply w story_id choice_id)) story_id =
           Some (context\<lparr>ctx_current_paragraph := ctx_current_paragraph context + 1\<rparr>) \<and>
         map_option md_max_paragraphs
           (stories_metadata (store (continue_story reply w story_id choice_id)) story_id) =
           Some (md_max_paragraphs metadata) \<and>
         resp_is_complete story_response =
           (ctx_current_paragraph context \<ge> md_max_paragraphs metadata - 1) \<and>
         (resp_is_complete story_response \<longrightarrow> par_choices (resp_paragraph story_response) = None)"
  using assms
  by (auto simp: continue_story_def Let_def msg_append_def str_append_def
      split: option.splits sum.splits prod.splits if_splits)

lemma continue_story_with_text_success:
  assumes "stories_context w story_id = Some context"
    and "stories_metadata w story_id = Some metadata"
    and "result (continue_story_with_text reply w story_id custom_text) = Inr story_response"
  shows "stories_context (store (continue_story_with_text reply w story_id custom_text)) story_id =
           Some (context\<lparr>ctx_current_paragraph := ctx_current_paragraph context + 1\<rparr>) \<and>
         map_option md_max_paragraphs
           (stories_metadata (store (continue_story_with_text reply w story_id custom_text))
              story_id) =
           Some (md_max_paragraphs metadata) \<and>
         resp_is_complete story_response =
           (ctx_current_paragraph context \<ge> md_max_paragraphs metadata - 1) \<and>
         (resp_is_complete story_response \<longrightarrow> par_choices (resp_paragraph story_response) = None)"
  using assms
  by (auto simp: continue_story_with_text_def Let_def msg_append_def str_append_def
      split: option.splits sum.splits prod.splits if_splits)

text \<open>
  Claim C4. A story is initialized with length short, in any store and under any id, and
  advanced twice, each time by a choice or by free text, with every model call returning a
  reply and both advances returning a response. Then the paragraph index is 1 after the
  initialization and 3 after the second advance; the first response is not complete; the
  second is complete and its paragraph has no choices.
\<close>

theorem short_story_scenario:
  assumes "cfg_length config = SHORT"
    and "begun = initialize_story story_id (Inr reply_a) w config"
    and "first = continue_story (Inr reply_b) (store begun) story_id choice_a \<or>
         first = continue_story_with_text (Inr reply_b) (store begun) story_id text_a"
    and "second = continue_story (Inr reply_c) (store first) story_id choice_b \<or>
         second = continue_story_with_text (Inr reply_c) (store first) story_id text_b"
    and "result first = Inr first_response" and "result second = Inr second_response"
  shows "map_option view_current_paragraph (session (store begun) story_id) = Some 1 \<and>
         map_option view_current_paragraph (session (store second) story_id) = Some 3 \<and>
         \<not> resp_is_complete first_response \<and> resp_is_complete second_response \<and>
         par_choices (resp_paragraph second_response) = None"
proof -
  let ?c0 = "\<lparr>ctx_paragraphs = next_ref w, ctx_current_paragraph = 1\<rparr>"
  let ?m0 = "\<lparr>md_config = config, md_max_paragraphs = 3, md_messages = Suc (next_ref w),
      md_title = None\<rparr>"
  from assms(1,2) have c0: "stories_context (store begun) story_id = Some ?c0"
    and m0: "stories_metadata (store begun) story_id = Some ?m0"
    using initialize_story_store [of story_id reply_a w config] by simp_all
  have s1: "stories_context (store first) story_id = Some (?c0\<lparr>ctx_current_paragraph := 2\<rparr>) \<and>
      map_option md_max_paragraphs (stories_metadata (store first) story_id) = Some 3 \<and>
      \<not> resp_is_complete first_response"
    using assms(3,5) continue_story_success [OF c0 m0, of "Inr reply_b" choice_a first_response]
      continue_story_with_text_success [OF c0 m0, of "Inr reply_b" text_a first_response]
    by auto
  then obtain m1 where ctx1: "stories_context (store first) story_id =
      Some (?c0\<lparr>ctx_current_paragraph := 2\<rparr>)"
    and m1: "stories_metadata (store first) story_id = Some m1" and max1: "md_max_paragraphs m1 = 3"
    by auto
  have s2: "stories_context (store second) story_id = Some (?c0\<lparr>ctx_current_paragraph := 3\<rparr>) \<and>
      map_option md_max_paragraphs (stories_metadata (store second) story_id) = Some 3 \<and>
      resp_is_complete second_response \<and> par_choices (resp_paragraph second_response) = None"
    using assms(4,6) max1 continue_story_success [OF ctx1 m1, of "Inr reply_c" choice_b second_response]
      continue_story_with_text_success [OF ctx1 m1, of "Inr reply_c" text_b second_response]
    by auto
  from c0 m0 s1 s2 show ?thesis
    by (auto simp: session_def split: option.splits)
qed

theorem short_story_scenario_witness:
  "cfg_length example_config = SHORT \<and>
   map_option view_current_paragraph (session started_world example_id) = Some 1 \<and>
   map_option view_current_paragraph (session completed_world example_id) = Some 3 \<and>
   (\<exists>first_response second_response.
      result (continue_story (Inr second_reply) started_world example_id 1) = Inr first_response \<and>
      result (continue_story (Inr final_reply) advanced_world example_id 2) = Inr second_response \<and>
      \<not> resp_is_complete first_response \<and> resp_is_complete second_response \<and>
      par_choices (resp_paragraph second_response) = None)"
proof -
  have short: "cfg_length example_config = SHORT"
    by (simp add: example_config_def)
  have sw: "store (initialize_story example_id (Inr first_reply) empty_world example_config) =
      started_world"
    by (simp add: started_world_def)
  have aw: "store (continue_story (Inr second_reply) started_world example_id 1) = advanced_world"
    by (simp add: advanced_world_def)
  have cw: "store (continue_story (Inr final_reply) advanced_world example_id 2) = completed_world"
    by (simp add: completed_world_def)
  show ?thesis
    using short_story_scenario [where config = example_config
        and begun = "initialize_story example_id (Inr first_reply) empty_world example_config"
        and story_id = example_id and reply_a = first_reply and w = empty_world
        and first = "continue_story (Inr second_reply) started_world example_id 1"
        and reply_b = second_reply and choice_a = 1 and text_a = "[]"
        and second = "continue_story (Inr final_reply) advanced_world example_id 2"
        and reply_c = final_reply and choice_b = 2 and text_b = "[]"
        and first_response = "\<lparr>resp_story_id = example_id,
          resp_paragraph = \<lparr>par_content = asc ''B'',
            par_choices = Some [\<lparr>id_choice = 1, text_choice = asc ''P''\<rparr>,
                                \<lparr>id_choice = 2, text_choice = asc ''Q''\<rparr>]\<rparr>,
          resp_is_complete = False, resp_title = None\<rparr>"
        and second_response = "\<lparr>resp_story_id = example_id,
          resp_paragraph = \<lparr>par_content = asc ''C'', par_choices = None\<rparr>,
          resp_is_complete = True, resp_title = Some (asc ''T'')\<rparr>"]
    by (simp add: sw aw cw short advanced_result completed_result)
qed

subsection \<open>The title\<close>

lemma title_present:
  assumes "stories_metadata w story_id = Some metadata" and "md_title metadata = Some t"
    and "t \<noteq> []"
  shows "generate_title_if_missing reply w story_id = \<lparr>result = Inr t, store = w, calls = []\<rparr>"
  using assms by (simp add: generate_title_if_missing_def Let_def)

lemma title_stored:
  assumes "result (generate_title_if_missing reply w story_id) = Inr t"
  shows "\<exists>metadata. stories_metadata (store (generate_title_if_missing reply w story_id)) story_id =
           Some metadata \<and> md_title metadata = Some t"
proof (cases "stories_metadata w story_id")
  case None
  with assms show ?thesis
    by (simp add: generate_title_if_missing_def)
next
  case (Some metadata)
  show ?thesis
  proof (cases "truthy (md_title metadata)")
    case True
    then obtain s where "md_title metadata = Some s" "s \<noteq> []"
      by (cases "md_title metadata") auto
    with Some assms show ?thesis
      by (simp add: title_present)
  next
    case False
    with Some assms show ?thesis
      by (cases "md_title metadata"; cases "get_complete_story w story_id"; cases reply)
        (simp_all add: generate_title_if_missing_def Let_def)
  qed
qed

text \<open>
  Claim C8, as the code has it. A stored title that is not empty is returned unchanged,
  without a model call and without a change of the store. So after a call that returned a
  non-empty title, a second call returns the same title, whatever the model would reply,
  and neither calls the model nor changes the store.
\<close>

theorem generate_title_idempotent:
  "(stories_metadata w story_id = Some metadata \<and> md_title metadata = Some t \<and> t \<noteq> [] \<longrightarrow>
      generate_title_if_missing reply w story_id = \<lparr>result = Inr t, store = w, calls = []\<rparr>) \<and>
   (result (generate_title_if_missing reply w story_id) = Inr t \<and> t \<noteq> [] \<longrightarrow>
      generate_title_if_missing reply' (store (generate_title_if_missing reply w story_id))
          story_id =
        \<lparr>result = Inr t, store = store (generate_title_if_missing reply w story_id),
         calls = []\<rparr>)"
  using title_present title_stored by blast

theorem generate_title_idempotent_witness:
  "result (generate_title_if_missing (Inr (asc ''The Cave'')) started_world example_id) =
     Inr (asc ''The Cave'') \<and>
   stories_metadata titled_world example_id =
     Some \<lparr>md_config = example_config, md_max_paragraphs = 3, md_messages = Suc 0,
           md_title = Some (asc ''The Cave'')\<rparr> \<and>
   generate_title_if_missing (Inr (asc ''Another'')) titled_world example_id =
     \<lparr>result = Inr (asc ''The Cave''), store = titled_world, calls = []\<rparr>"
proof -
  have r: "result (generate_title_if_missing (Inr (asc ''The Cave'')) started_world example_id) =
      Inr (asc ''The Cave'')"
    and s: "store (generate_title_if_missing (Inr (asc ''The Cave'')) started_world example_id) =
      titled_world"
    by (simp_all add: titled_world_eq)
  have n: "asc ''The Cave'' \<noteq> []"
    by (rule asc_Cons_neq_Nil)
  show ?thesis
    using generate_title_idempotent [where w = started_world and story_id = example_id
        and t = "asc ''The Cave''" and reply = "Inr (asc ''The Cave'')"
        and reply' = "Inr (asc ''Another'')"]
      generate_title_idempotent [where w = titled_world and story_id = example_id
        and metadata = "\<lparr>md_config = example_config, md_max_paragraphs = 3,
          md_messages = Suc 0, md_title = Some (asc ''The Cave'')\<rparr>"
        and t = "asc ''The Cave''" and reply = "Inr (asc ''Another'')"]
    by (simp add: r s n titled_metadata)
qed

text \<open>
  Claim C8, as it is stated: two consecutive calls return the same value and the second one
  never contacts the model or changes the session. When the model answers the first call
  with the bare title marker, the cleaned title is the empty string, which is stored and
  returned; the second call finds no title, calls the model again, and returns and stores
  what the model replies then.
\<close>

theorem empty_title_regenerated:
  "result (generate_title_if_missing (Inr title_marker) started_world example_id) = Inr [] \<and>
   map_option view_title (session empty_titled_world example_id) = Some (Some []) \<and>
   result (generate_title_if_missing (Inr (asc ''The Cave'')) empty_titled_world example_id) =
     Inr (asc ''The Cave'') \<and>
   length (calls (generate_title_if_missing (Inr (asc ''The Cave'')) empty_titled_world
     example_id)) = 1 \<and>
   map_option view_title
     (session (store (generate_title_if_missing (Inr (asc ''The Cave'')) empty_titled_world
        example_id)) example_id) =
     Some (Some (asc ''The Cave''))"
proof -
  have "map_option view_title (session empty_titled_world example_id) = Some (Some []) \<and>
      result (generate_title_if_missing (Inr (asc ''The Cave'')) empty_titled_world example_id) =
        Inr (asc ''The Cave'') \<and>
      length (calls (generate_title_if_missing (Inr (asc ''The Cave'')) empty_titled_world
        example_id)) = 1 \<and>
      map_option view_title
        (session (store (generate_title_if_missing (Inr (asc ''The Cave'')) empty_titled_world
           example_id)) example_id) =
        Some (Some (asc ''The Cave''))"
    by (simp add: empty_titled_world_eq generate_title_if_missing_def get_complete_story_def
        Let_def session_def clean_title)
  with empty_titled_result show ?thesis
    by (rule conjI)
qed

subsection \<open>The edit\<close>

lemma edit_story_session:
  assumes "session w story_id = Some v"
  shows "session (store (edit_story (Inr response_text) w story_id edit_instructions)) story_id =
           Some (v\<lparr>view_paragraphs :=
                      map strip (filter (\<lambda>p. strip p \<noteq> [])
                        (split_blank
                           (case re_search new_title_re response_text of
                              None \<Rightarrow> response_text
                            | Some m \<Rightarrow> sub_new_title response_text))),
                    view_title :=
                      (case re_search new_title_re response_text of
                         None \<Rightarrow> view_title v
                       | Some (g, r) \<Rightarrow>
                           if strip g \<noteq> [] then Some (strip g) else view_title v)\<rparr>) \<and>
         session (store (edit_story (Inl e) w story_id edit_instructions)) story_id = Some v"
proof -
  from assms obtain ctx md where c: "stories_context w story_id = Some ctx"
    and m: "stories_metadata w story_id = Some md"
    and v: "v = \<lparr>view_paragraphs = str_lists w (ctx_paragraphs ctx),
               view_current_paragraph = ctx_current_paragraph ctx,
               view_max_paragraphs = md_max_paragraphs md,
               view_messages = msg_lists w (md_messages md),
               view_title = md_title md\<rparr>"
    by (rule session_SomeD)
  show ?thesis
  proof (cases "re_search new_title_re response_text")
    case None
    with c m v show ?thesis
      by (simp add: edit_story_def session_def Let_def new_str_list_def)
  next
    case (Some gr)
    with c m v show ?thesis
      by (cases gr) (simp add: edit_story_def session_def Let_def new_str_list_def)
  qed
qed

text \<open>
  Claim C9. After \<open>edit_story\<close> with a reply of the model, the session is the one before
  with two fields replaced: the paragraphs, by the stripped non-blank pieces of the edited
  text (the reply without its new-title lines) split at blank lines, and the title, by the
  new title when a new-title line with a non-empty title was parsed. The paragraph index,
  the paragraph target and the message history are as before, whatever the number of new
  paragraphs. When the model call fails, the session is unchanged.
\<close>

theorem edit_story_frame:
  assumes "session w story_id = Some v"
  shows "session (store (edit_story (Inr response_text) w story_id edit_instructions)) story_id =
           Some (v\<lparr>view_paragraphs :=
                      map strip (filter (\<lambda>p. strip p \<noteq> [])
                        (split_blank
                           (case re_search new_title_re response_text of
                              None \<Rightarrow> response_text
                            | Some m \<Rightarrow> sub_new_title response_text))),
                    view_title :=
                      (case re_search new_title_re response_text of
                         None \<Rightarrow> view_title v
                       | Some (g, r) \<Rightarrow>
                           if strip g \<noteq> [] then Some (strip g) else view_title v)\<rparr>) \<and>
         session (store (edit_story (Inl e) w story_id edit_instructions)) story_id = Some v"
  using assms by (rule edit_story_session)

lemma edited_session:
  "session edited_world example_id =
     Some \<lparr>view_paragraphs = [asc ''One'', asc ''Two''], view_current_paragraph = 1,
           view_max_paragraphs = 3,
           view_messages =
             [\<lparr>msg_role = System, msg_content = get_system_prompt\<rparr>,
              \<lparr>msg_role = User, msg_content = create_story_init_prompt example_config\<rparr>,
              \<lparr>msg_role = Assistant, msg_content = first_reply\<rparr>],
           view_title = Some (asc ''New'')\<rparr>"
  using edit_story_session [OF started_session, of edit_reply "asc ''split it''"]
  by (simp add: edited_world_def search_edit_reply split_edit_reply strip_new asc_Cons_neq_Nil)

theorem edit_story_frame_witness:
  "session started_world example_id =
     Some \<lparr>view_paragraphs = [asc ''A''], view_current_paragraph = 1, view_max_paragraphs = 3,
           view_messages =
             [\<lparr>msg_role = System, msg_content = get_system_prompt\<rparr>,
              \<lparr>msg_role = User, msg_content = create_story_init_prompt example_config\<rparr>,
              \<lparr>msg_role = Assistant, msg_content = first_reply\<rparr>],
           view_title = None\<rparr> \<and>
   session (store (edit_story (Inr edit_reply) started_world example_id (asc ''split it'')))
       example_id =
     Some \<lparr>view_paragraphs = [asc ''One'', asc ''Two''], view_current_paragraph = 1,
           view_max_paragraphs = 3,
           view_messages =
             [\<lparr>msg_role = System, msg_content = get_system_prompt\<rparr>,
              \<lparr>msg_role = User, msg_content = create_story_init_prompt example_config\<rparr>,
              \<lparr>msg_role = Assistant, msg_content = first_reply\<rparr>],
           view_title = Some (asc ''New'')\<rparr>"
  using edit_story_frame [OF started_session, of edit_reply "asc ''split it''"]
  by (simp add: started_session search_edit_reply split_edit_reply strip_new asc_Cons_neq_Nil)

subsection \<open>The paragraph index\<close>

text \<open>
  What each operation does to the dictionaries of contexts and of metadata, to the store of
  paragraph lists and to the next free reference.
\<close>

lemma initialize_story_effect:
  "store (initialize_story story_id reply w config) = w \<or>
   (\<exists>p. next_ref (store (initialize_story story_id reply w config)) = Suc (Suc (next_ref w)) \<and>
      stories_context (store (initialize_story story_id reply w config)) =
        (stories_context w)(story_id \<mapsto> \<lparr>ctx_paragraphs = next_ref w, ctx_current_paragraph = 1\<rparr>) \<and>
      str_lists (store (initialize_story story_id reply w config)) =
        (str_lists w)(next_ref w := [p]))"
  by (auto simp: initialize_story_def Let_def new_str_list_def new_msg_list_def
      split: sum.splits prod.splits)

lemma continue_story_effect:
  "next_ref (store (continue_story reply w story_id choice_id)) = next_ref w \<and>
   ((stories_context (store (continue_story reply w story_id choice_id)) = stories_context w \<and>
     str_lists (store (continue_story reply w story_id choice_id)) = str_lists w) \<or>
    (\<exists>c p. stories_context w story_id = Some c \<and>
       stories_context (store (continue_story reply w story_id choice_id)) =
         (stories_context w)(story_id \<mapsto> c\<lparr>ctx_current_paragraph := ctx_current_paragraph c + 1\<rparr>) \<and>
       str_lists (store (continue_story reply w story_id choice_id)) =
         (str_lists w)(ctx_paragraphs c := str_lists w (ctx_paragraphs c) @ [p])))"
  by (auto simp: continue_story_def Let_def msg_append_def str_append_def
      split: option.splits sum.splits prod.splits)

lemma continue_story_with_text_effect:
  "next_ref (store (continue_story_with_text reply w story_id custom_text)) = next_ref w \<and>
   ((stories_context (store (continue_story_with_text reply w story_id custom_text)) =
       stories_context w \<and>
     str_lists (store (continue_story_with_text reply w story_id custom_text)) = str_lists w) \<or>
    (\<exists>c p. stories_context w story_id = Some c \<and>
       stories_context (store (continue_story_with_text reply w story_id custom_text)) =
         (stories_context w)(story_id \<mapsto> c\<lparr>ctx_current_paragraph := ctx_current_paragraph c + 1\<rparr>) \<and>
       str_lists (store (continue_story_with_text reply w story_id custom_text)) =
         (str_lists w)(ctx_paragraphs c := str_lists w (ctx_paragraphs c) @ [p])))"
  by (auto simp: continue_story_with_text_def Let_def msg_append_def str_append_def
      split: option.splits sum.splits prod.splits)

lemma generate_title_effect:
  "next_ref (store (generate_title_if_missing reply w story_id)) = next_ref w \<and>
   stories_context (store (generate_title_if_missing reply w story_id)) = stories_context w \<and>
   str_lists (store (generate_title_if_missing reply w story_id)) = str_lists w"
  by (auto simp: generate_title_if_missing_def Let_def split: option.splits sum.splits)

lemma edit_story_effect:
  "(stories_context (store (edit_story reply w story_id edit_instructions)) = stories_context w \<or>
    (\<exists>c r. stories_context w story_id = Some c \<and>
       stories_context (store (edit_story reply w story_id edit_instructions)) =
         (stories_context w)(story_id \<mapsto> c\<lparr>ctx_paragraphs := r\<rparr>))) \<and>
   dom (stories_metadata w) \<subseteq>
     dom (stories_metadata (store (edit_story reply w story_id edit_instructions)))"
proof (cases "stories_context w story_id")
  case None
  then show ?thesis
    by (simp add: edit_story_def)
next
  case c: (Some c)
  show ?thesis
  proof (cases "stories_metadata w story_id")
    case None
    with c show ?thesis
      by (simp add: edit_story_def)
  next
    case m: (Some m)
    show ?thesis
    proof (cases reply)
      case (Inl e)
      with c m show ?thesis
        by (simp add: edit_story_def Let_def)
    next
      case (Inr response_text)
      with c m show ?thesis
        by (cases "re_search new_title_re response_text")
          (auto simp: edit_story_def Let_def new_str_list_def)
    qed
  qed
qed

lemma initialize_story_metadata:
  "dom (stories_metadata w) \<subseteq>
     dom (stories_metadata (store (initialize_story story_id reply w config)))"
  by (auto simp: initialize_story_def Let_def new_str_list_def new_msg_list_def
      split: sum.splits prod.splits)

lemma continue_story_metadata:
  "dom (stories_metadata w) \<subseteq>
     dom (stories_metadata (store (continue_story reply w story_id choice_id)))"
  by (auto simp: continue_story_def Let_def msg_append_def str_append_def
      split: option.splits sum.splits prod.splits)

lemma continue_story_with_text_metadata:
  "dom (stories_metadata w) \<subseteq>
     dom (stories_metadata (store (continue_story_with_text reply w story_id custom_text)))"
  by (auto simp: continue_story_with_text_def Let_def msg_append_def str_append_def
      split: option.splits sum.splits prod.splits)

lemma generate_title_metadata:
  "dom (stories_metadata w) \<subseteq>
     dom (stories_metadata (store (generate_title_if_missing reply w story_id)))"
  by (auto simp: generate_title_if_missing_def Let_def split: option.splits sum.splits)

text \<open>
  Without an edit, every stored context keeps three things: its paragraph list is an
  allocated object, its index is the length of that list, and no other context shares the
  list.
\<close>

lemma reachable_consistent:
  assumes "reachable not_edit w"
  shows "\<forall>sid c. stories_context w sid = Some c \<longrightarrow>
           ctx_paragraphs c < next_ref w \<and>
           ctx_current_paragraph c = int (length (str_lists w (ctx_paragraphs c))) \<and>
           (\<forall>sid' c'. stories_context w sid' = Some c' \<and> ctx_paragraphs c' = ctx_paragraphs c
              \<longrightarrow> sid' = sid)"
  using assms
proof (induction rule: reachable.induct)
  case start
  show ?case
    by (simp add: empty_world_def)
next
  case (step w op reply)
  note IH = step.IH
  show ?case
  proof (cases op)
    case (Initialize story_id config)
    with step.hyps have new: "stories_context w story_id = None"
      by simp
    from IH have below:
      "\<And>sid c. stories_context w sid = Some c \<Longrightarrow> ctx_paragraphs c \<noteq> next_ref w"
      by fastforce
    show ?thesis
      using initialize_story_effect [of story_id reply w config]
    proof (elim disjE exE conjE)
      assume "store (initialize_story story_id reply w config) = w"
      with IH Initialize show ?thesis
        by simp
    next
      fix p
      assume "next_ref (store (initialize_story story_id reply w config)) = Suc (Suc (next_ref w))"
        and "stories_context (store (initialize_story story_id reply w config)) =
          (stories_context w)(story_id \<mapsto> \<lparr>ctx_paragraphs = next_ref w, ctx_current_paragraph = 1\<rparr>)"
        and "str_lists (store (initialize_story story_id reply w config)) =
          (str_lists w)(next_ref w := [p])"
      with IH below Initialize show ?thesis
        by (auto split: if_splits) (metis less_Suc_eq)+
    qed
  next
    case (Advance_by_choice story_id choice_id)
    show ?thesis
      using continue_story_effect [of reply w story_id choice_id] IH Advance_by_choice
      by (auto split: if_splits)
  next
    case (Advance_by_text story_id custom_text)
    show ?thesis
      using continue_story_with_text_effect [of reply w story_id custom_text] IH Advance_by_text
      by (auto split: if_splits)
  next
    case (Finalize_title story_id)
    with IH show ?thesis
      by (simp add: generate_title_effect)
  next
    case (Edit story_id edit_instructions)
    with step.hyps show ?thesis
      by simp
  qed
qed

lemma index_monotone:
  assumes "session w sid = Some v" and "fresh op w"
  shows "\<exists>v'. session (apply_operation op reply w) sid = Some v' \<and>
           view_current_paragraph v \<le> view_current_paragraph v'"
proof -
  from assms(1) obtain c m where c: "stories_context w sid = Some c"
    and m: "stories_metadata w sid = Some m"
    and v: "view_current_paragraph v = ctx_current_paragraph c"
    by (auto simp: session_def split: option.splits)
  from m have d: "sid \<in> dom (stories_metadata w)"
    by auto
  have "(\<exists>c'. stories_context (apply_operation op reply w) sid = Some c' \<and>
      ctx_current_paragraph c \<le> ctx_current_paragraph c') \<and>
      sid \<in> dom (stories_metadata (apply_operation op reply w))"
  proof (cases op)
    case (Initialize story_id config)
    with assms(2) c have "sid \<noteq> story_id"
      by auto
    with c d Initialize show ?thesis
      using initialize_story_effect [of story_id reply w config]
        initialize_story_metadata [of w story_id reply config]
      by auto
  next
    case (Advance_by_choice story_id choice_id)
    with c d show ?thesis
      using continue_story_effect [of reply w story_id choice_id]
        continue_story_metadata [of w reply story_id choice_id]
      by (cases "sid = story_id") auto
  next
    case (Advance_by_text story_id custom_text)
    with c d show ?thesis
      using continue_story_with_text_effect [of reply w story_id custom_text]
        continue_story_with_text_metadata [of w reply story_id custom_text]
      by (cases "sid = story_id") auto
  next
    case (Finalize_title story_id)
    with c d show ?thesis
      using generate_title_effect [of reply w story_id]
        generate_title_metadata [of w reply story_id]
      by auto
  next
    case (Edit story_id edit_instructions)
    with c d show ?thesis
      using edit_story_effect [of reply w story_id edit_instructions]
      by (cases "sid = story_id") auto
  qed
  then obtain c' m' where "stories_context (apply_operation op reply w) sid = Some c'"
    and "ctx_current_paragraph c \<le> ctx_current_paragraph c'"
    and "stories_metadata (apply_operation op reply w) sid = Some m'"
    by auto
  with v show ?thesis
    by (simp add: session_def)
qed

lemma reachable_started:
  assumes "allowed (Initialize example_id example_config)"
  shows "reachable allowed started_world"
  unfolding started_world_def
  by (rule reachable.step) (rule reachable.start, rule assms, simp add: empty_world_def)

text \<open>
  Claim C3, as the code has it. Under every public operation, the edit included, the
  paragraph index of a stored session does not decrease. In every store reached without an
  edit, the index of each session equals the number of its stored paragraph texts. (The
  edit replaces the paragraph list and leaves the index as it is.)
\<close>

theorem index_monotone_and_counted:
  "(session w sid = Some v \<and> fresh op w \<longrightarrow>
      (\<exists>v'. session (apply_operation op reply w) sid = Some v' \<and>
         view_current_paragraph v \<le> view_current_paragraph v')) \<and>
   (reachable not_edit w' \<and> session w' sid' = Some u \<longrightarrow>
      view_current_paragraph u = int (length (view_paragraphs u)))"
proof (intro conjI impI)
  assume "session w sid = Some v \<and> fresh op w"
  then show "\<exists>v'. session (apply_operation op reply w) sid = Some v' \<and>
      view_current_paragraph v \<le> view_current_paragraph v'"
    by (simp add: index_monotone)
next
  assume a: "reachable not_edit w' \<and> session w' sid' = Some u"
  then have "session w' sid' = Some u"
    by simp
  then obtain ctx md where "stories_context w' sid' = Some ctx"
    and "stories_metadata w' sid' = Some md"
    and "u = \<lparr>view_paragraphs = str_lists w' (ctx_paragraphs ctx),
               view_current_paragraph = ctx_current_paragraph ctx,
               view_max_paragraphs = md_max_paragraphs md,
               view_messages = msg_lists w' (md_messages md),
               view_title = md_title md\<rparr>"
    by (rule session_SomeD)
  with a show "view_current_paragraph u = int (length (view_paragraphs u))"
    using reachable_consistent [of w'] by simp
qed

theorem index_monotone_and_counted_witness:
  "fresh (Edit example_id (asc ''split it'')) started_world \<and>
   (\<exists>v'. session edited_world example_id = Some v' \<and> 1 \<le> view_current_paragraph v') \<and>
   reachable not_edit completed_world \<and>
   map_option view_current_paragraph (session completed_world example_id) = Some 3 \<and>
   map_option (length \<circ> view_paragraphs) (session completed_world example_id) = Some 3"
proof -
  have "reachable not_edit advanced_world"
    unfolding advanced_world_def
    by (rule reachable.step [OF reachable_started]) simp_all
  then have r: "reachable not_edit completed_world"
    unfolding completed_world_def
    by (rule reachable.step) simp_all
  show ?thesis
    using r
      index_monotone_and_counted [where w = started_world and sid = example_id
        and v = "\<lparr>view_paragraphs = [asc ''A''], view_current_paragraph = 1,
          view_max_paragraphs = 3,
          view_messages =
            [\<lparr>msg_role = System, msg_content = get_system_prompt\<rparr>,
             \<lparr>msg_role = User, msg_content = create_story_init_prompt example_config\<rparr>,
             \<lparr>msg_role = Assistant, msg_content = first_reply\<rparr>],
          view_title = None\<rparr>"
        and op = "Edit example_id (asc ''split it'')" and reply = "Inr edit_reply"
        and w' = completed_world and sid' = example_id
        and u = "\<lparr>view_paragraphs = [asc ''A'', asc ''B'', asc ''C''],
          view_current_paragraph = 3, view_max_paragraphs = 3,
          view_messages =
            [\<lparr>msg_role = System, msg_content = get_system_prompt\<rparr>,
             \<lparr>msg_role = User, msg_content = create_story_init_prompt example_config\<rparr>,
             \<lparr>msg_role = Assistant, msg_content = first_reply\<rparr>,
             \<lparr>msg_role = User,
              msg_content = create_continuation_prompt (asc ''A'') 1 (asc ''X'') 1 3\<rparr>,
             \<lparr>msg_role = Assistant, msg_content = second_reply\<rparr>,
             \<lparr>msg_role = User,
              msg_content =
                create_continuation_prompt (asc ''A'' @ [10] @ asc ''B'') 2 (asc ''Q'') 2 3\<rparr>,
             \<lparr>msg_role = Assistant, msg_content = final_reply\<rparr>],
          view_title = Some (asc ''T'')\<rparr>"]
    by (simp add: started_session completed_session edited_world_def)
qed

text \<open>
  Claim C3, as it is stated: in every store reachable through the public operations the
  index equals the number of stored paragraph texts. After the edit of the started story
  into two paragraphs, the index is 1 and the session stores 2 paragraph texts.
\<close>

theorem edit_breaks_count:
  "reachable any_operation edited_world \<and>
   map_option view_current_paragraph (session edited_world example_id) = Some 1 \<and>
   map_option (length \<circ> view_paragraphs) (session edited_world example_id) = Some 2"
proof -
  have "reachable any_operation edited_world"
    unfolding edited_world_def
    by (rule reachable.step [OF reachable_started]) simp_all
  then show ?thesis
    by (simp add: edited_session)
qed

end
